theory Spec2Isabelle
  imports Main "HOL-Library.Word"
begin

section \<open>Crash handler\<close>

text \<open>
  A \<open>time.Time\<close> is modelled by the number of nanoseconds that separate it from Go's zero
  Time, so \<open>IsZero\<close> is equality with 0. A \<open>time.Duration\<close> is a signed 64-bit count of
  nanoseconds; the product \<open>time.Second * time.Duration(timeout)\<close> wraps at 64 bits.
\<close>

type_synonym time = int

definition IsZero :: "time \<Rightarrow> bool" where
  "IsZero t = (t = 0)"

definition seconds :: "int \<Rightarrow> int" where
  \<comment> \<open>\<open>time.Second * time.Duration(n)\<close>\<close>
  "seconds n = sint (word_of_int (1000000000 * n) :: 64 word)"

definition Add :: "time \<Rightarrow> int \<Rightarrow> time" where
  "Add t d = t + d"

definition After :: "time \<Rightarrow> time \<Rightarrow> bool" where
  "After t u = (u < t)"

datatype process_state =
  ProcessOfflineState | ProcessStartingState | ProcessRunningState | ProcessStoppingState

datatype power_action =
  PowerActionStart | PowerActionStop | PowerActionRestart | PowerActionTerminate

text \<open>
  The lines the handler publishes on the server console and writes to the debug log. Each
  constructor stands for one of the fixed texts of the source, with the values it formats.
\<close>

datatype console_line =
    ConsoleDetectionDisabled
  | ConsoleCrashDetected
  | ConsoleExitCode nat
  | ConsoleOomKilled bool
  | ConsoleTooFrequent int

datatype debug_line = DebugDetectionDisabled | DebugCleanExit

datatype crash_error =
    ExitStateFailed string
  | crashTooFrequent
  | StartFailed string

text \<open>
  Everything one call of \<open>handleServerCrash\<close> reads from outside the crash handler: the
  environment's state and exit state, the configuration, the two readings of the clock
  (one in the cooldown test, one handed to \<open>SetLastCrash\<close>) and what
  \<open>HandlePowerAction(PowerActionStart)\<close> answers if it is called.
\<close>

record crash_call =
  env_state :: process_state
  CrashDetectionEnabled :: bool
  exit_state :: "string + (nat \<times> bool)"
  DetectCleanExitAsCrash :: bool
  Timeout :: int
  now_check :: time
  now_set :: time
  start_result :: "string option"

record crash_outcome =
  returned :: "crash_error option"
  console :: "console_line list"
  debug_log :: "debug_line list"
  power_actions :: "power_action list"
  lastCrash :: time

definition handleServerCrash :: "crash_call \<Rightarrow> time \<Rightarrow> crash_outcome" where
  "handleServerCrash w c0 =
     (if env_state w \<noteq> ProcessOfflineState \<or> \<not> CrashDetectionEnabled w then
        (if \<not> CrashDetectionEnabled w then
           \<lparr>returned = None, console = [ConsoleDetectionDisabled],
            debug_log = [DebugDetectionDisabled], power_actions = [], lastCrash = c0\<rparr>
         else
           \<lparr>returned = None, console = [], debug_log = [], power_actions = [],
            lastCrash = c0\<rparr>)
      else
        (case exit_state w of
           Inl err \<Rightarrow>
             \<lparr>returned = Some (ExitStateFailed err), console = [], debug_log = [],
              power_actions = [], lastCrash = c0\<rparr>
         | Inr (exitCode, oomKilled) \<Rightarrow>
             if exitCode = 0 \<and> \<not> oomKilled \<and> \<not> DetectCleanExitAsCrash w then
               \<lparr>returned = None, console = [], debug_log = [DebugCleanExit],
                power_actions = [], lastCrash = c0\<rparr>
             else
               (let announced =
                      [ConsoleCrashDetected, ConsoleExitCode exitCode, ConsoleOomKilled oomKilled];
                    c = c0;
                    timeout = Timeout w
                in if timeout \<noteq> 0 \<and> \<not> IsZero c
                      \<and> After (Add c (seconds (Timeout w))) (now_check w) then
                     \<lparr>returned = Some crashTooFrequent,
                      console = announced @ [ConsoleTooFrequent timeout],
                      debug_log = [], power_actions = [], lastCrash = c0\<rparr>
                   else
                     \<lparr>returned = (case start_result w of
                                    None \<Rightarrow> None
                                  | Some err \<Rightarrow> Some (StartFailed err)),
                      console = announced, debug_log = [],
                      power_actions = [PowerActionStart], lastCrash = now_set w\<rparr>)))"

text \<open>
  A server's history of crash events: the calls of \<open>handleServerCrash\<close> one after the
  other, the recorded last crash time carried from each call to the next. The result lists
  the clock readings recorded by the calls that issued a start, oldest first.
\<close>

fun crash_restarts :: "crash_call list \<Rightarrow> time \<Rightarrow> time list" where
  "crash_restarts [] c0 = []"
| "crash_restarts (w # ws) c0 =
     (let r = handleServerCrash w c0
      in (if PowerActionStart \<in> set (power_actions r) then [lastCrash r] else [])
           @ crash_restarts ws (lastCrash r))"

text \<open>
  The clock does not run backwards: within a call the cooldown test reads it before
  \<open>SetLastCrash\<close> does, and each call reads it after the call before.
\<close>

fun clock_from :: "time \<Rightarrow> crash_call list \<Rightarrow> bool" where
  "clock_from b [] = True"
| "clock_from b (w # ws) =
     (b \<le> now_check w \<and> now_check w \<le> now_set w \<and> clock_from (now_set w) ws)"

section \<open>HTTP error translation\<close>

subsection \<open>Strings\<close>

fun HasPrefix :: "string \<Rightarrow> string \<Rightarrow> bool" where
  "HasPrefix s [] = True"
| "HasPrefix [] (p # ps) = False"
| "HasPrefix (c # s) (p # ps) = (c = p \<and> HasPrefix s ps)"

fun Contains :: "string \<Rightarrow> string \<Rightarrow> bool" where
  "Contains [] sub = (sub = [])"
| "Contains (c # s) sub = (HasPrefix (c # s) sub \<or> Contains s sub)"

definition HasSuffix :: "string \<Rightarrow> string \<Rightarrow> bool" where
  "HasSuffix s x = HasPrefix (rev s) (rev x)"

subsection \<open>Errors and responses\<close>

text \<open>The error codes of the filesystem package that the sources refer to.\<close>

datatype ErrorCode =
    ErrCodeDenylistFile
  | ErrCodePathResolution
  | ErrCodeIsDirectory
  | ErrCodeDiskSpace
  | ErrCodeUnknownArchive

text \<open>
  A Go \<open>error\<close> as the translator observes it: the code \<open>filesystem.IsErrorCode\<close> finds
  in it (if it is a filesystem error), the text \<open>Error()\<close> returns, whether
  \<open>errors.Is(err, os.ErrNotExist)\<close> holds, and the \<open>Syscall\<close> field when the value is an
  \<open>*os.SyscallError\<close>.
\<close>

record go_error =
  fs_code :: "ErrorCode option"
  Error :: string
  is_not_exist :: bool
  syscall_error :: "string option"

definition IsErrorCode :: "go_error \<Rightarrow> ErrorCode \<Rightarrow> bool" where
  "IsErrorCode e c = (fs_code e = Some c)"

record RequestError =
  err :: go_error
  uuid :: string
  message :: string
  has_server :: bool

definition StatusBadRequest :: int where "StatusBadRequest = 400"
definition StatusForbidden :: int where "StatusForbidden = 403"
definition StatusNotFound :: int where "StatusNotFound = 404"
definition StatusInternalServerError :: int where "StatusInternalServerError = 500"

text \<open>The fixed texts of the responses, as the UTF-8 bytes of the source's literals.\<close>

definition text_not_found :: string where
  "text_not_found =
     [CHR 0xE5, CHR 0x9C, CHR 0xA8, CHR 0xE7, CHR 0xB3, CHR 0xBB, CHR 0xE7, CHR 0xBB,
      CHR 0x9F, CHR 0xE4, CHR 0xB8, CHR 0x8A, CHR 0xE6, CHR 0x89, CHR 0xBE, CHR 0xE4,
      CHR 0xB8, CHR 0x8D, CHR 0xE5, CHR 0x88, CHR 0xB0, CHR 0xE8, CHR 0xAF, CHR 0xB7,
      CHR 0xE6, CHR 0xB1, CHR 0x82, CHR 0xE7, CHR 0x9A, CHR 0x84, CHR 0xE8, CHR 0xB5,
      CHR 0x84, CHR 0xE6, CHR 0xBA, CHR 0x90, CHR 0xE3, CHR 0x80, CHR 0x82]"

definition text_bad_escape :: string where
  "text_bad_escape =
     [CHR 0xE8, CHR 0xAF, CHR 0xB7, CHR 0xE6, CHR 0xB1, CHR 0x82, CHR 0xE4, CHR 0xB8,
      CHR 0xAD, CHR 0xE6, CHR 0x8F, CHR 0x90, CHR 0xE4, CHR 0xBE, CHR 0x9B, CHR 0xE7,
      CHR 0x9A, CHR 0x84, CHR 0xE6, CHR 0x9F, CHR 0x90, CHR 0xE4, CHR 0xBA, CHR 0x9B,
      CHR 0xE6, CHR 0x95, CHR 0xB0, CHR 0xE6, CHR 0x8D, CHR 0xAE, CHR 0xE4, CHR 0xBC,
      CHR 0xBC, CHR 0xE4, CHR 0xB9, CHR 0x8E, CHR 0xE6, CHR 0x9C, CHR 0xAA, CHR 0xE6,
      CHR 0xAD, CHR 0xA3, CHR 0xE7, CHR 0xA1, CHR 0xAE, CHR 0xE8, CHR 0xBD, CHR 0xAC,
      CHR 0xE4, CHR 0xB9, CHR 0x89, CHR 0xE3, CHR 0x80, CHR 0x82]"

definition text_denylist :: string where
  "text_denylist =
     [CHR 0xE6, CHR 0xAD, CHR 0xA4, CHR 0xE6, CHR 0x96, CHR 0x87, CHR 0xE4, CHR 0xBB,
      CHR 0xB6, CHR 0xE6, CHR 0x97, CHR 0xA0, CHR 0xE6, CHR 0xB3, CHR 0x95, CHR 0xE4,
      CHR 0xBF, CHR 0xAE, CHR 0xE6, CHR 0x94, CHR 0xB9, CHR 0xEF, CHR 0xBC, CHR 0x9A,
      CHR 0xE5, CHR 0x87, CHR 0xBA, CHR 0xE7, CHR 0x8E, CHR 0xB0, CHR 0xE5, CHR 0x9C,
      CHR 0xA8, CHR 0xE9, CHR 0xA2, CHR 0x84, CHR 0xE8, CHR 0xAE, CHR 0xBE, CHR 0xE6,
      CHR 0x8B, CHR 0x92, CHR 0xE7, CHR 0xBB, CHR 0x9D, CHR 0xE5, CHR 0x90, CHR 0x8D,
      CHR 0xE5, CHR 0x8D, CHR 0x95, CHR 0xE4, CHR 0xB8, CHR 0xAD, CHR 0xE3, CHR 0x80,
      CHR 0x82]"

definition text_is_directory :: string where
  "text_is_directory =
     [CHR 0xE6, CHR 0x97, CHR 0xA0, CHR 0xE6, CHR 0xB3, CHR 0x95, CHR 0xE6, CHR 0x89,
      CHR 0xA7, CHR 0xE8, CHR 0xA1, CHR 0x8C, CHR 0xE8, CHR 0xAF, CHR 0xA5, CHR 0xE6,
      CHR 0x93, CHR 0x8D, CHR 0xE4, CHR 0xBD, CHR 0x9C, CHR 0xEF, CHR 0xBC, CHR 0x9A,
      CHR 0xE6, CHR 0x96, CHR 0x87, CHR 0xE4, CHR 0xBB, CHR 0xB6, CHR 0xE6, CHR 0x98,
      CHR 0xAF, CHR 0xE7, CHR 0x9B, CHR 0xAE, CHR 0xE5, CHR 0xBD, CHR 0x95, CHR 0xE3,
      CHR 0x80, CHR 0x82]"

definition text_disk_space :: string where
  "text_disk_space =
     [CHR 0xE6, CHR 0x97, CHR 0xA0, CHR 0xE6, CHR 0xB3, CHR 0x95, CHR 0xE6, CHR 0x89,
      CHR 0xA7, CHR 0xE8, CHR 0xA1, CHR 0x8C, CHR 0xE8, CHR 0xAF, CHR 0xA5, CHR 0xE6,
      CHR 0x93, CHR 0x8D, CHR 0xE4, CHR 0xBD, CHR 0x9C, CHR 0xEF, CHR 0xBC, CHR 0x9A,
      CHR 0xE5, CHR 0x8F, CHR 0xAF, CHR 0xE7, CHR 0x94, CHR 0xA8, CHR 0xE7, CHR 0x9A,
      CHR 0x84, CHR 0xE5, CHR 0xAD, CHR 0x98, CHR 0xE5, CHR 0x82, CHR 0xA8, CHR 0xE7,
      CHR 0xA9, CHR 0xBA, CHR 0xE9, CHR 0x97, CHR 0xB4, CHR 0xE4, CHR 0xB8, CHR 0x8D,
      CHR 0xE8, CHR 0xB6, CHR 0xB3, CHR 0xE3, CHR 0x80, CHR 0x82]"

definition text_name_too_long :: string where
  "text_name_too_long =
     [CHR 0xE6, CHR 0x97, CHR 0xA0, CHR 0xE6, CHR 0xB3, CHR 0x95, CHR 0xE6, CHR 0x89,
      CHR 0xA7, CHR 0xE8, CHR 0xA1, CHR 0x8C, CHR 0xE8, CHR 0xAF, CHR 0xA5, CHR 0xE6,
      CHR 0x93, CHR 0x8D, CHR 0xE4, CHR 0xBD, CHR 0x9C, CHR 0xEF, CHR 0xBC, CHR 0x9A,
      CHR 0xE6, CHR 0x96, CHR 0x87, CHR 0xE4, CHR 0xBB, CHR 0xB6, CHR 0xE5, CHR 0x90,
      CHR 0x8D, CHR 0xE5, CHR 0xA4, CHR 0xAA, CHR 0xE9, CHR 0x95, CHR 0xBF, CHR 0xE3,
      CHR 0x80, CHR 0x82]"

definition text_no_directory :: string where
  "text_no_directory =
     [CHR 0xE8, CHR 0xAF, CHR 0xB7, CHR 0xE6, CHR 0xB1, CHR 0x82, CHR 0xE7, CHR 0x9A,
      CHR 0x84, CHR 0xE7, CHR 0x9B, CHR 0xAE, CHR 0xE5, CHR 0xBD, CHR 0x95, CHR 0xE4,
      CHR 0xB8, CHR 0x8D, CHR 0xE5, CHR 0xAD, CHR 0x98, CHR 0xE5, CHR 0x9C, CHR 0xA8,
      CHR 0xE3, CHR 0x80, CHR 0x82]"

definition text_unexpected :: string where
  "text_unexpected =
     [CHR 0xE5, CHR 0xA4, CHR 0x84, CHR 0xE7, CHR 0x90, CHR 0x86, CHR 0xE6, CHR 0xAD,
      CHR 0xA4, CHR 0xE8, CHR 0xAF, CHR 0xB7, CHR 0xE6, CHR 0xB1, CHR 0x82, CHR 0xE6,
      CHR 0x97, CHR 0xB6, CHR 0xE9, CHR 0x81, CHR 0x87, CHR 0xE5, CHR 0x88, CHR 0xB0,
      CHR 0xE6, CHR 0x84, CHR 0x8F, CHR 0xE5, CHR 0xA4, CHR 0x96, CHR 0xE9, CHR 0x94,
      CHR 0x99, CHR 0xE8, CHR 0xAF, CHR 0xAF, CHR 0xE3, CHR 0x80, CHR 0x82]"

text \<open>
  What \<open>AbortWithStatus\<close> hands to \<open>c.AbortWithStatusJSON\<close>: the status code and the two
  fields of the JSON body (\<open>error_id\<close> is absent from the bodies of the untracked
  responses).
\<close>

record response =
  status :: int
  body_error :: string
  body_error_id :: "string option"

datatype log_level = ErrorLevel | DebugLevel

text \<open>
  An entry written through \<open>e.logger()\<close>: its level and the fields \<open>error_id\<close> and
  \<open>error\<close>; \<open>on_server_log\<close> tells whether the server's logger or the global one wrote it.
\<close>

record log_entry =
  level :: log_level
  field_error_id :: string
  field_error :: go_error
  on_server_log :: bool

definition logger :: "RequestError \<Rightarrow> log_level \<Rightarrow> log_entry" where
  "logger e l =
     \<lparr>level = l, field_error_id = uuid e, field_error = err e, on_server_log = has_server e\<rparr>"

definition getAsFilesystemError :: "RequestError \<Rightarrow> int \<times> string" where
  "getAsFilesystemError e =
     (if IsErrorCode (err e) ErrCodeDenylistFile
         \<or> Contains (Error (err e)) ''filesystem: file access prohibited'' then
        (StatusForbidden, text_denylist)
      else if IsErrorCode (err e) ErrCodePathResolution
         \<or> Contains (Error (err e)) ''resolves to a location outside the server root'' then
        (StatusNotFound, text_not_found)
      else if IsErrorCode (err e) ErrCodeIsDirectory
         \<or> Contains (Error (err e)) ''filesystem: is a directory'' then
        (StatusBadRequest, text_is_directory)
      else if IsErrorCode (err e) ErrCodeDiskSpace
         \<or> Contains (Error (err e)) ''filesystem: not enough disk space'' then
        (StatusBadRequest, text_disk_space)
      else if HasSuffix (Error (err e)) ''file name too long'' then
        (StatusBadRequest, text_name_too_long)
      else if syscall_error (err e) = Some ''readdirent'' then
        (StatusNotFound, text_no_directory)
      else (0, ''''))"

text \<open>
  \<open>AbortWithStatus status c\<close> on the request error \<open>e\<close>, where \<open>writer_status\<close> is what
  \<open>c.Writer.Status()\<close> returns. The result is the response sent, the log entries written
  and the request error afterwards (its message may have been filled in).
\<close>

definition AbortWithStatus ::
  "int \<Rightarrow> int \<Rightarrow> RequestError \<Rightarrow> response \<times> log_entry list \<times> RequestError" where
  "AbortWithStatus status0 writer_status e =
     (let status = (if writer_status \<noteq> 200 then writer_status else status0)
      in if is_not_exist (err e) then
           (\<lparr>status = StatusNotFound, body_error = text_not_found, body_error_id = None\<rparr>,
            [], e)
         else if HasPrefix (Error (err e)) ''invalid URL escape'' then
           (\<lparr>status = StatusBadRequest, body_error = text_bad_escape, body_error_id = None\<rparr>,
            [], e)
         else
           (case getAsFilesystemError e of (st, msg) \<Rightarrow>
              if st \<noteq> 0 then
                (\<lparr>status = st, body_error = msg, body_error_id = None\<rparr>, [], e)
              else
                (let entry = (if status \<ge> 500 then logger e ErrorLevel
                              else logger e DebugLevel);
                     e' = (if message e = '''' then e\<lparr>message := text_unexpected\<rparr> else e)
                 in (\<lparr>status = status, body_error = message e',
                      body_error_id = Some (uuid e')\<rparr>,
                     [entry], e'))))"

definition Abort :: "int \<Rightarrow> RequestError \<Rightarrow> response \<times> log_entry list \<times> RequestError" where
  "Abort writer_status e = AbortWithStatus StatusInternalServerError writer_status e"

section \<open>Sandboxed filesystem and archives\<close>

subsection \<open>Paths\<close>

text \<open>
  \<open>filepath.Clean\<close> and \<open>filepath.Join\<close> of the Go library on a Unix host, as the
  library documents them: empty and \<open>.\<close> elements are dropped, an inner \<open>..\<close> removes
  the element before it, and a \<open>..\<close> at the start of a rooted path is dropped.
\<close>

fun split_slash :: "string \<Rightarrow> string list" where
  "split_slash [] = [] # []"
| "split_slash (c # cs) =
     (if c = CHR ''/'' then [] # split_slash cs
      else (case split_slash cs of [] \<Rightarrow> [c] # [] | s # ss \<Rightarrow> (c # s) # ss))"

fun join_slash :: "string list \<Rightarrow> string" where
  "join_slash [] = []"
| "join_slash [s] = s"
| "join_slash (s # t # ts) = s @ CHR ''/'' # join_slash (t # ts)"

fun clean_elements :: "bool \<Rightarrow> string list \<Rightarrow> string list \<Rightarrow> string list" where
  "clean_elements rooted out [] = rev out"
| "clean_elements rooted out (s # ss) =
     (if s = [] \<or> s = ''.'' then clean_elements rooted out ss
      else if s = ''..'' then
        (case out of
           [] \<Rightarrow> if rooted then clean_elements rooted [] ss
                 else clean_elements rooted [''..''] ss
         | t # ts \<Rightarrow> if t = ''..'' then clean_elements rooted (''..'' # out) ss
                     else clean_elements rooted ts ss)
      else clean_elements rooted (s # out) ss)"

definition Clean :: "string \<Rightarrow> string" where
  "Clean p =
     (if p = [] then ''.''
      else
        (let rooted = (hd p = CHR ''/'');
             body = join_slash (clean_elements rooted [] (split_slash p))
         in if rooted then CHR ''/'' # body
            else if body = [] then ''.'' else body))"

definition Join :: "string list \<Rightarrow> string" where
  "Join elem =
     (case dropWhile (\<lambda>e. e = []) elem of
        [] \<Rightarrow> []
      | es \<Rightarrow> Clean (join_slash es))"

definition Base :: "string \<Rightarrow> string" where
  "Base p =
     (if p = [] then ''.''
      else
        (let q = rev (dropWhile (\<lambda>c. c = CHR ''/'') (rev p))
         in if q = [] then ''/'' else last (split_slash q)))"

definition Dir :: "string \<Rightarrow> string" where
  \<comment> \<open>\<open>filepath.Dir\<close>: the path up to its last separator, cleaned\<close>
  "Dir p = Clean (rev (dropWhile (\<lambda>c. c \<noteq> CHR ''/'') (rev p)))"

definition TrimSuffix :: "string \<Rightarrow> string \<Rightarrow> string" where
  "TrimSuffix s suffix =
     (if HasSuffix s suffix then take (length s - length suffix) s else s)"

text \<open>\<open>within r q\<close>: the path \<open>q\<close> is the directory \<open>r\<close> or lies below it.\<close>

definition within :: "string \<Rightarrow> string \<Rightarrow> bool" where
  "within r q = (q = r \<or> HasPrefix q (r @ ''/''))"

text \<open>
  The path \<open>q\<close>, which is \<open>r\<close> or below it, element by element: \<open>r\<close>, then \<open>r\<close> with the
  first element of the remainder, and so on down to \<open>q\<close> itself.
\<close>

definition descent :: "string \<Rightarrow> string \<Rightarrow> string list" where
  "descent r q =
     (let below = split_slash (drop (length r) q)
      in map (\<lambda>k. r @ concat (map (\<lambda>s. CHR ''/'' # s) (take k (tl below))))
           [0 ..< length below])"

subsection \<open>The filesystem of a server\<close>

datatype failure =
    Filesystem ErrorCode
  | ContextCanceled
  | ErrNoMatch
  | NotExist
  | EOF
  | Failed string

text \<open>
  The rooted view of a server's data directory. \<open>denylist\<close> is the compiled matcher,
  \<open>resolve\<close> the host's expansion of the symbolic links of a path (the identity where there
  are none). Files are kept by the location they have after that expansion.
\<close>

record filesystem =
  root :: string
  denylist :: "string \<Rightarrow> bool"
  resolve :: "string \<Rightarrow> string"
  disk_limit :: int
  disk_used :: int
  files :: "string \<rightharpoonup> string"
  modes :: "string \<rightharpoonup> nat"
  mtimes :: "string \<rightharpoonup> int"

text \<open>
  Modelled from the spec: \<open>SafePath\<close> is not among the sources. The spec: join with root,
  lexically clean, then walk the path element by element, resolving each symlink fully
  before descending; if at any point the resolved prefix escapes root, fail with a
  path-resolution error. The result is the cleaned absolute path.
\<close>

definition SafePath :: "filesystem \<Rightarrow> string \<Rightarrow> failure + string" where
  "SafePath fs p =
     (let r = Join [root fs, p]
      in if within (root fs) r
            \<and> list_all (\<lambda>q. within (root fs) (resolve fs q)) (descent (root fs) r)
         then Inr r
         else Inl (Filesystem ErrCodePathResolution))"

text \<open>
  Modelled from the spec: \<open>ParallelSafePath\<close> is not among the sources. The spec: the same
  contract over a set of paths, the first failure returned. The model resolves the paths
  in the order of the list.
\<close>

fun ParallelSafePath :: "filesystem \<Rightarrow> string list \<Rightarrow> failure + string list" where
  "ParallelSafePath fs [] = Inr []"
| "ParallelSafePath fs (p # ps) =
     (case SafePath fs p of
        Inl e \<Rightarrow> Inl e
      | Inr c \<Rightarrow>
          (case ParallelSafePath fs ps of
             Inl e \<Rightarrow> Inl e
           | Inr cs \<Rightarrow> Inr (c # cs)))"

text \<open>
  Modelled from the spec: \<open>HasSpaceFor\<close> is not among the sources. The spec: a disk-space
  error when \<open>disk_limit > 0\<close> and \<open>disk_used + delta > disk_limit\<close>.
\<close>

definition HasSpaceFor :: "filesystem \<Rightarrow> int \<Rightarrow> failure option" where
  "HasSpaceFor fs delta =
     (if disk_limit fs > 0 \<and> disk_used fs + delta > disk_limit fs
      then Some (Filesystem ErrCodeDiskSpace) else None)"

text \<open>
  Modelled from the spec: \<open>addDisk\<close> and the quota operations \<open>CanFit\<close> and \<open>Add\<close> of
  \<open>unixFS\<close> are not among the sources. The spec names the test for the finished archive
  \<open>HasSpaceFor\<close> and says that its size is added to \<open>disk_used\<close>.
\<close>

definition addDisk :: "filesystem \<Rightarrow> int \<Rightarrow> filesystem" where
  "addDisk fs n = fs\<lparr>disk_used := disk_used fs + n\<rparr>"

definition CanFit :: "filesystem \<Rightarrow> int \<Rightarrow> bool" where
  "CanFit fs n = (HasSpaceFor fs n = None)"

definition Add_unixFS :: "filesystem \<Rightarrow> int \<Rightarrow> filesystem" where
  "Add_unixFS fs n = addDisk fs n"

text \<open>
  Modelled from the spec: \<open>IsIgnored\<close> is not among the sources. The spec: it consults a
  compiled gitignore matcher; a denied path is a denylist error.
\<close>

definition IsIgnored :: "filesystem \<Rightarrow> string \<Rightarrow> failure option" where
  "IsIgnored fs p =
     (if denylist fs p then Some (Filesystem ErrCodeDenylistFile) else None)"

text \<open>
  Modelled from the spec: \<open>wrapError\<close> is not among the sources. The spec: errors are
  wrapped with context and never in a way that hides their kind. The model keeps the
  error and leaves the context out.
\<close>

definition wrapError :: "failure \<Rightarrow> string \<Rightarrow> failure" where
  "wrapError e resolved = e"

text \<open>A stream cut into the chunks of \<open>n\<close> bytes it is written in.\<close>

fun chunked :: "nat \<Rightarrow> string \<Rightarrow> string list" where
  "chunked n [] = []"
| "chunked n (c # cs) =
     (if n = 0 then [] else take n (c # cs) # chunked n (drop n (c # cs)))"

text \<open>
  Modelled from the spec: \<open>Writefile\<close> is not among the sources. The spec: writes a stream
  through \<open>SafePath(p)\<close>, checking \<open>HasSpaceFor\<close> per chunk (4 KiB) before committing the
  chunk; on quota exhaustion mid-write the partial file is removed and a disk-space error
  returned; on success \<open>disk_used\<close> grows by the exact written size.
\<close>

fun chunks_fit :: "filesystem \<Rightarrow> nat \<Rightarrow> string list \<Rightarrow> bool" where
  "chunks_fit fs written [] = True"
| "chunks_fit fs written (c # cs) =
     (HasSpaceFor fs (int (written + length c)) = None
      \<and> chunks_fit fs (written + length c) cs)"

definition Writefile :: "filesystem \<Rightarrow> string \<Rightarrow> string \<Rightarrow> failure option \<times> filesystem" where
  "Writefile fs p r =
     (case SafePath fs p of
        Inl e \<Rightarrow> (Some e, fs)
      | Inr sp \<Rightarrow>
          if chunks_fit fs 0 (chunked 4096 r) then
            (None, fs\<lparr>files := (files fs)(resolve fs sp \<mapsto> r),
                      disk_used := disk_used fs + int (length r)\<rparr>)
          else
            (Some (Filesystem ErrCodeDiskSpace),
             fs\<lparr>files := (files fs)(resolve fs sp := None)\<rparr>))"

text \<open>
  Modelled from the spec: \<open>Chmod\<close> and \<open>Chtimes\<close> are not among the sources. The spec lists
  them with the safe filesystem, whose every path goes through the sandbox (invariant 1).
  A path with no file is an error of the host.
\<close>

definition Chmod :: "filesystem \<Rightarrow> string \<Rightarrow> nat \<Rightarrow> failure option \<times> filesystem" where
  "Chmod fs p m =
     (case SafePath fs p of
        Inl e \<Rightarrow> (Some e, fs)
      | Inr sp \<Rightarrow>
          if files fs (resolve fs sp) = None then (Some NotExist, fs)
          else (None, fs\<lparr>modes := (modes fs)(resolve fs sp \<mapsto> m)\<rparr>))"

definition Chtimes :: "filesystem \<Rightarrow> string \<Rightarrow> int \<Rightarrow> int \<Rightarrow> failure option \<times> filesystem" where
  "Chtimes fs p atime mtime =
     (case SafePath fs p of
        Inl e \<Rightarrow> (Some e, fs)
      | Inr sp \<Rightarrow>
          if files fs (resolve fs sp) = None then (Some NotExist, fs)
          else (None, fs\<lparr>mtimes := (mtimes fs)(resolve fs sp \<mapsto> mtime)\<rparr>))"

text \<open>
  Modelled from the spec: \<open>Write\<close> (the write used by the \<open>unixFS\<close> variant, taking the
  entry's size and mode) is not among the sources. The spec describes the write of an
  archive entry as \<open>Writefile\<close> followed by restoring the mode.
\<close>

definition Write ::
  "filesystem \<Rightarrow> string \<Rightarrow> string \<Rightarrow> int \<Rightarrow> nat \<Rightarrow> failure option \<times> filesystem" where
  "Write fs p r newSize m =
     (case Writefile fs p r of
        (Some e, fs') \<Rightarrow> (Some e, fs')
      | (None, fs') \<Rightarrow> Chmod fs' p m)"

text \<open>
  Modelled from the spec: the file operations of \<open>unixFS\<close> are not among the sources. By
  invariant 1 of the spec each of them resolves its path inside the root or fails with a
  path-resolution error. \<open>OpenFile\<close> is the open with \<open>O_WRONLY|O_CREATE\<close> and mode 0644
  (an existing file keeps its content), and returns the location of the open file.
\<close>

definition OpenFile :: "filesystem \<Rightarrow> string \<Rightarrow> failure + (string \<times> filesystem)" where
  "OpenFile fs p =
     (case SafePath fs p of
        Inl e \<Rightarrow> Inl e
      | Inr sp \<Rightarrow>
          (let t = resolve fs sp
           in if files fs t = None
              then Inr (t, fs\<lparr>files := (files fs)(t \<mapsto> []), modes := (modes fs)(t \<mapsto> 420)\<rparr>)
              else Inr (t, fs)))"

definition Open_unixFS :: "filesystem \<Rightarrow> string \<Rightarrow> failure + string" where
  "Open_unixFS fs p =
     (case SafePath fs p of
        Inl e \<Rightarrow> Inl e
      | Inr sp \<Rightarrow>
          (case files fs (resolve fs sp) of
             None \<Rightarrow> Inl NotExist
           | Some bytes \<Rightarrow> Inr bytes))"

text \<open>
  Modelled from the spec: \<open>Remove\<close> of \<open>unixFS\<close> is not among the sources. By invariant 1
  of the spec it resolves its path inside the root, and by invariant 2 a delete subtracts
  the freed bytes from \<open>disk_used\<close> once the unlink has succeeded. A path that fails the
  resolution or names no file is an error (which \<open>CompressFiles\<close> ignores) and changes
  nothing.
\<close>

definition Remove_unixFS :: "filesystem \<Rightarrow> string \<Rightarrow> filesystem" where
  "Remove_unixFS fs p =
     (case SafePath fs p of
        Inl e \<Rightarrow> fs
      | Inr sp \<Rightarrow>
          (case files fs (resolve fs sp) of
             None \<Rightarrow> fs
           | Some bytes \<Rightarrow>
               fs\<lparr>files := (files fs)(resolve fs sp := None),
                  disk_used := disk_used fs - int (length bytes)\<rparr>))"

text \<open>
  The calls of the \<open>os\<close> package act on host paths directly. \<open>os.Stat\<close> follows
  symbolic links. \<open>os.Remove\<close> unlinks the name it is given: the directory part of the
  path is followed through symbolic links, the last element is not, so removing a name
  that is a symbolic link removes the link and leaves the file it points to; it touches no
  counter. \<open>fwrite\<close> is \<open>f.Write\<close> on a file opened without truncation, at the offset the
  writes so far have reached.
\<close>

record FileInfo =
  info_location :: string
  info_size :: int

definition os_Stat :: "filesystem \<Rightarrow> string \<Rightarrow> failure + FileInfo" where
  "os_Stat fs p =
     (case files fs (resolve fs p) of
        None \<Rightarrow> Inl NotExist
      | Some bytes \<Rightarrow> Inr \<lparr>info_location = resolve fs p, info_size = int (length bytes)\<rparr>)"

definition os_Remove :: "filesystem \<Rightarrow> string \<Rightarrow> filesystem" where
  "os_Remove fs p =
     (let loc = Join [resolve fs (Dir p), Base p]
      in if resolve fs loc = loc
         then fs\<lparr>files := (files fs)(loc := None)\<rparr>
         else fs\<lparr>resolve := (resolve fs)(loc := loc)\<rparr>)"

definition fwrite :: "filesystem \<Rightarrow> string \<Rightarrow> nat \<Rightarrow> string \<Rightarrow> filesystem" where
  "fwrite fs t off buf =
     (let old = (case files fs t of None \<Rightarrow> [] | Some bytes \<Rightarrow> bytes)
      in fs\<lparr>files := (files fs)(t \<mapsto> take off old @ buf @ drop (off + length buf) old)\<rparr>)"

definition fStat :: "filesystem \<Rightarrow> string \<Rightarrow> failure + FileInfo" where
  "fStat fs t =
     (case files fs t of
        None \<Rightarrow> Inl NotExist
      | Some bytes \<Rightarrow> Inr \<lparr>info_location = t, info_size = int (length bytes)\<rparr>)"

subsection \<open>Archives\<close>

text \<open>
  An entry of a container archive as the archiver library presents it
  (\<open>archiver.File\<close>): \<open>Open\<close> is what \<open>f.Open()\<close> answers, an error or the entry's bytes.
\<close>

record archive_file =
  NameInArchive :: string
  IsDir :: bool
  Open :: "failure + string"
  Size :: int
  Mode :: nat
  ModTime :: int

text \<open>
  An identified format (\<open>archiver.Format\<close>) with the interfaces it implements. An
  extractor turns the archive's bytes into the entries \<open>Extract\<close> walks. A decompressor
  turns them into what \<open>OpenReader\<close> answers: an error, or the reader, given by the
  results of its successive \<open>Read\<close> calls, each the bytes read and the error returned
  with them. Past the listed results a reader returns no bytes and \<open>io.EOF\<close>.
\<close>

record Format =
  Name :: string
  Extractor :: "(string \<Rightarrow> archive_file list) option"
  Decompressor :: "(string \<Rightarrow> failure + (string \<times> failure option) list) option"

record extractStreamOptions =
  Directory :: string
  FileName :: string
  Format :: Format
  Reader :: string

text \<open>
  A context is given by the number of entries the archive walker starts before it finds
  the context done (\<open>None\<close>: it is never done).
\<close>

type_synonym Context = "nat option"

definition ctx_done :: "Context \<Rightarrow> nat \<Rightarrow> bool" where
  "ctx_done ctx i = (case ctx of None \<Rightarrow> False | Some k \<Rightarrow> k \<le> i)"

text \<open>
  \<open>Extract\<close> of the archiver library, by its contract: it walks the entries in order,
  before each entry returns the context's error if the context is done, hands the entry to
  the handler, and stops at the first error the handler returns, which it returns (wrapped
  with the entry's name, the kind unchanged).
\<close>

fun Extract ::
  "(archive_file \<Rightarrow> filesystem \<Rightarrow> failure option \<times> filesystem) \<Rightarrow> Context \<Rightarrow> nat
     \<Rightarrow> archive_file list \<Rightarrow> filesystem \<Rightarrow> failure option \<times> filesystem" where
  "Extract handleFile ctx i [] fs = (None, fs)"
| "Extract handleFile ctx i (f # rest) fs =
     (if ctx_done ctx i then (Some ContextCanceled, fs)
      else
        (case handleFile f fs of
           (Some e, fs') \<Rightarrow> (Some e, fs')
         | (None, fs') \<Rightarrow> Extract handleFile ctx (Suc i) rest fs'))"

subsubsection \<open>The variant built on SafePath\<close>

text \<open>The handler \<open>extractStream\<close> passes to \<open>Extract\<close>.\<close>

definition extractStream_entry_SafePath ::
  "extractStreamOptions \<Rightarrow> archive_file \<Rightarrow> filesystem \<Rightarrow> failure option \<times> filesystem" where
  "extractStream_entry_SafePath opts f fs =
     (if IsDir f then (None, fs)
      else
        (let p = Join [Directory opts, NameInArchive f]
         in if IsIgnored fs p \<noteq> None then (None, fs)
            else
              (case Open f of
                 Inl e \<Rightarrow> (Some e, fs)
               | Inr r \<Rightarrow>
                   (case Writefile fs p r of
                      (Some e, fs1) \<Rightarrow> (Some (wrapError e (FileName opts)), fs1)
                    | (None, fs1) \<Rightarrow>
                        (case Chmod fs1 p (Mode f) of
                           (Some e, fs2) \<Rightarrow> (Some (wrapError e (FileName opts)), fs2)
                         | (None, fs2) \<Rightarrow>
                             (case Chtimes fs2 p (ModTime f) (ModTime f) of
                                (Some e, fs3) \<Rightarrow> (Some (wrapError e (FileName opts)), fs3)
                              | (None, fs3) \<Rightarrow> (None, fs3)))))))"

definition extractStream_SafePath ::
  "Context \<Rightarrow> extractStreamOptions \<Rightarrow> filesystem \<Rightarrow> failure option \<times> filesystem" where
  "extractStream_SafePath ctx opts fs =
     (case Extractor (Format opts) of
        Some ex \<Rightarrow> Extract (extractStream_entry_SafePath opts) ctx 0 (ex (Reader opts)) fs
      | None \<Rightarrow> (None, fs))"

text \<open>
  The handler of \<open>ExtractStreamUnsafe\<close> in this variant. \<open>convertToUTF8\<close> is the decoder
  of the text library for the label \<open>gbk\<close>, a parameter here.
\<close>

definition ExtractStreamUnsafe_entry_SafePath ::
  "(string \<Rightarrow> failure + string) \<Rightarrow> extractStreamOptions \<Rightarrow> archive_file \<Rightarrow> filesystem
     \<Rightarrow> failure option \<times> filesystem" where
  "ExtractStreamUnsafe_entry_SafePath convertToUTF8 opts f fs =
     (if IsDir f then (None, fs)
      else
        (let p = Join [Directory opts, NameInArchive f]
         in if IsIgnored fs p \<noteq> None then (None, fs)
            else
              (case convertToUTF8 (NameInArchive f) of
                 Inl e \<Rightarrow> (Some e, fs)
               | Inr utf8Name \<Rightarrow>
                   (case Open f of
                      Inl e \<Rightarrow> (Some e, fs)
                    | Inr r \<Rightarrow>
                        (case Writefile fs p r of
                           (Some e, fs1) \<Rightarrow> (Some (wrapError e (FileName opts)), fs1)
                         | (None, fs1) \<Rightarrow>
                             (case Chmod fs1 p (Mode f) of
                                (Some e, fs2) \<Rightarrow> (Some (wrapError e (FileName opts)), fs2)
                              | (None, fs2) \<Rightarrow>
                                  (case Chtimes fs2 p (ModTime f) (ModTime f) of
                                     (Some e, fs3) \<Rightarrow>
                                       (Some (wrapError e (FileName opts)), fs3)
                                   | (None, fs3) \<Rightarrow> (None, fs3))))))))"

text \<open>
  \<open>archiver.Identify\<close> is a parameter: from the name and the bytes of a file it answers
  an error (\<open>ErrNoMatch\<close> when no format matches) or the format.
\<close>

type_synonym identify = "string \<Rightarrow> string \<Rightarrow> failure + Format"

definition ExtractStreamUnsafe_SafePath ::
  "identify \<Rightarrow> (string \<Rightarrow> failure + string) \<Rightarrow> Context \<Rightarrow> string \<Rightarrow> string \<Rightarrow> filesystem
     \<Rightarrow> failure option \<times> filesystem" where
  "ExtractStreamUnsafe_SafePath Identify convertToUTF8 ctx dir r fs =
     (case Identify ''archive.tar.gz'' r of
        Inl e \<Rightarrow>
          if e = ErrNoMatch then (Some (Filesystem ErrCodeUnknownArchive), fs)
          else (Some e, fs)
      | Inr format \<Rightarrow>
          (let opts = \<lparr>Directory = dir, FileName = [], Format = format, Reader = r\<rparr>
           in case Extractor (Format opts) of
                Some ex \<Rightarrow>
                  Extract (ExtractStreamUnsafe_entry_SafePath convertToUTF8 opts) ctx 0
                    (ex (Reader opts)) fs
              | None \<Rightarrow> (None, fs)))"

definition DecompressFileUnsafe_SafePath ::
  "identify \<Rightarrow> Context \<Rightarrow> string \<Rightarrow> string \<Rightarrow> filesystem \<Rightarrow> failure option \<times> filesystem" where
  "DecompressFileUnsafe_SafePath Identify ctx dir file fs =
     (case files fs (resolve fs file) of
        None \<Rightarrow> (Some NotExist, fs)
      | Some bytes \<Rightarrow>
          (case Identify (Base file) bytes of
             Inl e \<Rightarrow>
               if e = ErrNoMatch then (Some (Filesystem ErrCodeUnknownArchive), fs)
               else (Some e, fs)
           | Inr format \<Rightarrow>
               extractStream_SafePath ctx
                 \<lparr>Directory = dir, FileName = [], Format = format, Reader = bytes\<rparr> fs))"

definition DecompressFile_SafePath ::
  "identify \<Rightarrow> Context \<Rightarrow> string \<Rightarrow> string \<Rightarrow> filesystem \<Rightarrow> failure option \<times> filesystem" where
  "DecompressFile_SafePath Identify ctx dir file fs =
     (case SafePath fs (Join [dir, file]) of
        Inl e \<Rightarrow> (Some e, fs)
      | Inr source \<Rightarrow> DecompressFileUnsafe_SafePath Identify ctx dir source fs)"

subsubsection \<open>The variant built on unixFS\<close>

text \<open>
  The copy loop of the single-file mode: \<open>t\<close> is the open target, \<open>off\<close> the offset the
  writes have reached, the list the results of the reader's \<open>Read\<close> calls to come.
\<close>

fun copy_loop ::
  "string \<Rightarrow> nat \<Rightarrow> (string \<times> failure option) list \<Rightarrow> filesystem
     \<Rightarrow> failure option \<times> filesystem" where
  "copy_loop t off [] fs = (None, fs)"
| "copy_loop t off ((buf, e) # reads) fs =
     (case (if length buf > 0 then HasSpaceFor fs (int (length buf)) else None) of
        Some quotaErr \<Rightarrow> (Some quotaErr, fs)
      | None \<Rightarrow>
          (let fs1 = (if length buf > 0
                      then addDisk (fwrite fs t off buf) (int (length buf)) else fs)
           in case e of
                None \<Rightarrow> copy_loop t (off + length buf) reads fs1
              | Some x \<Rightarrow> if x = EOF then (None, fs1) else (Some x, fs1)))"

text \<open>
  The handler passed to \<open>Extract\<close>. \<open>decodeGBK\<close> is the GBK decoder of the text library,
  a parameter here.
\<close>

definition extractStream_entry_unixFS ::
  "(string \<Rightarrow> failure + string) \<Rightarrow> extractStreamOptions \<Rightarrow> archive_file \<Rightarrow> filesystem
     \<Rightarrow> failure option \<times> filesystem" where
  "extractStream_entry_unixFS decodeGBK opts f fs =
     (if IsDir f then (None, fs)
      else
        (let p = Join [Directory opts, NameInArchive f]
         in if IsIgnored fs p \<noteq> None then (None, fs)
            else
              (case Open f of
                 Inl e \<Rightarrow> (Some e, fs)
               | Inr r \<Rightarrow>
                   (case decodeGBK p of
                      Inl e \<Rightarrow> (Some e, fs)
                    | Inr filePath \<Rightarrow>
                        (case Write fs filePath r (Size f) (Mode f) of
                           (Some e, fs1) \<Rightarrow> (Some (wrapError e (FileName opts)), fs1)
                         | (None, fs1) \<Rightarrow>
                             (case Chtimes fs1 filePath (ModTime f) (ModTime f) of
                                (Some e, fs2) \<Rightarrow>
                                  (Some (wrapError e (FileName opts)), fs2)
                              | (None, fs2) \<Rightarrow> (None, fs2)))))))"

definition extractStream_unixFS ::
  "(string \<Rightarrow> failure + string) \<Rightarrow> Context \<Rightarrow> extractStreamOptions \<Rightarrow> filesystem
     \<Rightarrow> failure option \<times> filesystem" where
  "extractStream_unixFS decodeGBK ctx opts fs =
     (case Extractor (Format opts) of
        None \<Rightarrow>
          (case Decompressor (Format opts) of
             None \<Rightarrow> (None, fs)
           | Some de \<Rightarrow>
               (let p = Join [Directory opts,
                              TrimSuffix (FileName opts) (Name (Format opts))]
                in if IsIgnored fs p \<noteq> None then (None, fs)
                   else
                     (case de (Reader opts) of
                        Inl e \<Rightarrow> (Some e, fs)
                      | Inr reader \<Rightarrow>
                          (case OpenFile fs p of
                             Inl e \<Rightarrow> (Some e, fs)
                           | Inr (t, fs1) \<Rightarrow> copy_loop t 0 reader fs1))))
      | Some ex \<Rightarrow>
          Extract (extractStream_entry_unixFS decodeGBK opts) ctx 0 (ex (Reader opts)) fs)"

definition DecompressFile_unixFS ::
  "identify \<Rightarrow> (string \<Rightarrow> failure + string) \<Rightarrow> Context \<Rightarrow> string \<Rightarrow> string \<Rightarrow> filesystem
     \<Rightarrow> failure option \<times> filesystem" where
  "DecompressFile_unixFS Identify decodeGBK ctx dir file fs =
     (case Open_unixFS fs (Join [dir, file]) of
        Inl e \<Rightarrow> (Some e, fs)
      | Inr bytes \<Rightarrow>
          (case Identify (Base file) bytes of
             Inl e \<Rightarrow>
               if e = ErrNoMatch then (Some (Filesystem ErrCodeUnknownArchive), fs)
               else (Some e, fs)
           | Inr format \<Rightarrow>
               extractStream_unixFS decodeGBK ctx
                 \<lparr>Directory = dir, FileName = file, Format = format, Reader = bytes\<rparr> fs))"

definition ExtractStreamUnsafe_unixFS ::
  "identify \<Rightarrow> (string \<Rightarrow> failure + string) \<Rightarrow> Context \<Rightarrow> string \<Rightarrow> string \<Rightarrow> filesystem
     \<Rightarrow> failure option \<times> filesystem" where
  "ExtractStreamUnsafe_unixFS Identify decodeGBK ctx dir r fs =
     (case Identify ''archive.tar.gz'' r of
        Inl e \<Rightarrow>
          if e = ErrNoMatch then (Some (Filesystem ErrCodeUnknownArchive), fs)
          else (Some e, fs)
      | Inr format \<Rightarrow>
          extractStream_unixFS decodeGBK ctx
            \<lparr>Directory = dir, FileName = [], Format = format, Reader = r\<rparr> fs)"

subsection \<open>Compression\<close>

text \<open>
  The name of the archive, \<open>stamp\<close> being the current time in the RFC 3339 format:
  \<open>fmt.Sprintf("archive-%s.tar.gz", strings.ReplaceAll(stamp, ":", ""))\<close>.
\<close>

definition archive_name :: "string \<Rightarrow> string" where
  "archive_name stamp = ''archive-'' @ filter (\<lambda>c. c \<noteq> CHR '':'') stamp @ ''.tar.gz''"

text \<open>
  The archive writer is a parameter: \<open>Stream fs base files\<close> gives the bytes the archive
  of the files writes to its output before it returns, and the error it returns.
\<close>

type_synonym streamer = "filesystem \<Rightarrow> string \<Rightarrow> string list \<Rightarrow> string \<times> failure option"

text \<open>
  Modelled from the spec: \<open>Archive.Create\<close> is not among the sources. The spec: the
  archive is written as a \<open>tar.gz\<close> into the directory; the model writes the streamed bytes
  to the host path \<open>dst\<close> and returns the stream's error.
\<close>

definition Create ::
  "streamer \<Rightarrow> filesystem \<Rightarrow> string \<Rightarrow> string list \<Rightarrow> string \<Rightarrow> failure option \<times> filesystem" where
  "Create Stream fs base fileList dst =
     (case Stream fs base fileList of
        (bytes, e) \<Rightarrow> (e, fs\<lparr>files := (files fs)(resolve fs dst \<mapsto> bytes)\<rparr>))"

text \<open>
  \<open>CompressFiles\<close> of the variant built on SafePath. The second component of the result is
  the caller's \<open>paths\<close> slice after the call.
\<close>

definition CompressFiles_SafePath ::
  "streamer \<Rightarrow> string \<Rightarrow> string \<Rightarrow> string list \<Rightarrow> filesystem
     \<Rightarrow> (failure + FileInfo) \<times> string list \<times> filesystem" where
  "CompressFiles_SafePath Stream stamp dir paths fs =
     (case SafePath fs dir of
        Inl e \<Rightarrow> (Inl e, paths, fs)
      | Inr cleanedRootDir \<Rightarrow>
          (let paths1 = map (\<lambda>p. Join [cleanedRootDir, p]) paths
           in case ParallelSafePath fs paths1 of
                Inl e \<Rightarrow> (Inl e, paths1, fs)
              | Inr cleaned \<Rightarrow>
                  (let d = Join [cleanedRootDir, archive_name stamp]
                   in case Create Stream fs cleanedRootDir cleaned d of
                        (Some e, fs1) \<Rightarrow> (Inl e, paths1, fs1)
                      | (None, fs1) \<Rightarrow>
                          (case os_Stat fs1 d of
                             Inl e \<Rightarrow> (Inl e, paths1, os_Remove fs1 d)
                           | Inr f \<Rightarrow>
                               (case HasSpaceFor fs1 (info_size f) of
                                  Some e \<Rightarrow> (Inl e, paths1, os_Remove fs1 d)
                                | None \<Rightarrow>
                                    (Inr f, paths1, addDisk fs1 (info_size f)))))))"

text \<open>
  \<open>CompressFiles\<close> of the variant built on unixFS: the archive is streamed through a
  counting writer into the file opened at \<open>d\<close>.
\<close>

definition CompressFiles_unixFS ::
  "streamer \<Rightarrow> string \<Rightarrow> string \<Rightarrow> string list \<Rightarrow> filesystem
     \<Rightarrow> (failure + FileInfo) \<times> filesystem" where
  "CompressFiles_unixFS Stream stamp dir paths fs =
     (let d = Join [dir, archive_name stamp]
      in case OpenFile fs d of
           Inl e \<Rightarrow> (Inl e, fs)
         | Inr (f, fs1) \<Rightarrow>
             (case Stream fs1 dir paths of
                (bytes, e) \<Rightarrow>
                  (let fs2 = fwrite fs1 f 0 bytes;
                       BytesWritten = int (length bytes)
                   in case e of
                        Some e \<Rightarrow> (Inl e, fs2)
                      | None \<Rightarrow>
                          if \<not> CanFit fs2 BytesWritten then
                            (Inl (Filesystem ErrCodeDiskSpace), Remove_unixFS fs2 d)
                          else
                            (let fs3 = Add_unixFS fs2 BytesWritten
                             in (fStat fs3 f, fs3)))))"

subsection \<open>Text encodings\<close>

text \<open>
  \<open>utf8.ValidString\<close> of the Go library: whether the bytes are well-formed UTF-8. The
  sources never call it; it is here to say what "invalid as UTF-8" in the spec means.
\<close>

definition byte_in :: "nat \<Rightarrow> nat \<Rightarrow> char \<Rightarrow> bool" where
  "byte_in lo hi c = (lo \<le> of_char c \<and> of_char c \<le> hi)"

fun ValidString :: "string \<Rightarrow> bool" where
  "ValidString [] = True"
| "ValidString (a # rest) =
     (if byte_in 0x00 0x7F a then ValidString rest
      else if byte_in 0xC2 0xDF a then
        (case rest of
           b # r1 \<Rightarrow> byte_in 0x80 0xBF b \<and> ValidString r1
         | _ \<Rightarrow> False)
      else if byte_in 0xE0 0xEF a then
        (case rest of
           b # c # r2 \<Rightarrow>
             byte_in (if a = CHR 0xE0 then 0xA0 else 0x80) (if a = CHR 0xED then 0x9F else 0xBF) b
             \<and> byte_in 0x80 0xBF c \<and> ValidString r2
         | _ \<Rightarrow> False)
      else if byte_in 0xF0 0xF4 a then
        (case rest of
           b # c # d # r3 \<Rightarrow>
             byte_in (if a = CHR 0xF0 then 0x90 else 0x80) (if a = CHR 0xF4 then 0x8F else 0xBF) b
             \<and> byte_in 0x80 0xBF c \<and> byte_in 0x80 0xBF d \<and> ValidString r3
         | _ \<Rightarrow> False)
      else False)"

subsection \<open>What an operation may change\<close>


section \<open>Concrete inputs\<close>

text \<open>
  A crash event on an offline server with crash detection enabled: the exit code, the
  cooldown timeout and the second at which the handler runs (it reads the clock for
  \<open>SetLastCrash\<close> one nanosecond after the cooldown test).
\<close>

definition crash_at :: "nat \<Rightarrow> int \<Rightarrow> time \<Rightarrow> crash_call" where
  "crash_at code t secs =
     \<lparr>env_state = ProcessOfflineState, CrashDetectionEnabled = True,
      exit_state = Inr (code, False), DetectCleanExitAsCrash = False, Timeout = t,
      now_check = 1000000000 * secs, now_set = 1000000000 * secs + 1, start_result = None\<rparr>"

text \<open>
  Request errors: a disk-space error of the filesystem package, and the host's error for a
  name that is too long, on a path one of whose directories is named after the text of
  the denylist error.
\<close>

definition disk_space_error :: RequestError where
  "disk_space_error =
     \<lparr>err = \<lparr>fs_code = Some ErrCodeDiskSpace, Error = ''filesystem: not enough disk space'',
             is_not_exist = False, syscall_error = None\<rparr>,
      uuid = ''1f0e5d46-8c1b-4c55-9d5e-0a4a3c6f2b11'', message = [], has_server = False\<rparr>"

definition long_name_error :: RequestError where
  "long_name_error =
     \<lparr>err = \<lparr>fs_code = None,
             Error = ''open /home/container/filesystem: file access prohibited/''
                       @ replicate 256 (CHR ''a'') @ '': file name too long'',
             is_not_exist = False, syscall_error = None\<rparr>,
      uuid = ''1f0e5d46-8c1b-4c55-9d5e-0a4a3c6f2b12'', message = [], has_server = False\<rparr>"

definition runtime_error :: RequestError where
  "runtime_error =
     \<lparr>err = \<lparr>fs_code = None, Error = ''environment/docker: failed to start container'',
             is_not_exist = False, syscall_error = None\<rparr>,
      uuid = ''1f0e5d46-8c1b-4c55-9d5e-0a4a3c6f2b13'', message = [], has_server = True\<rparr>"

text \<open>
  A server whose data directory is \<open>/srv/data\<close>, with no denied paths and no symbolic
  links, a quota of 100 bytes of which 10 are used, and one stored file.
\<close>

definition small_fs :: filesystem where
  "small_fs =
     \<lparr>root = ''/srv/data'', denylist = (\<lambda>p. False), resolve = (\<lambda>p. p),
      disk_limit = 100, disk_used = 10,
      files = [''/srv/data/blob.bin'' \<mapsto> ''0123456789''],
      modes = Map.empty, mtimes = Map.empty\<rparr>"

text \<open>A regular archive entry with the given name and content.\<close>

definition entry :: "string \<Rightarrow> string \<Rightarrow> archive_file" where
  "entry n c =
     \<lparr>NameInArchive = n, IsDir = False, Open = Inr c, Size = int (length c), Mode = 420,
      ModTime = 1700000000\<rparr>"

text \<open>
  Formats: a container archive holding the given entries, a single-file compression
  whose reader yields the given results, and a format with neither interface.
\<close>

definition tar_of :: "archive_file list \<Rightarrow> Format" where
  "tar_of es = \<lparr>Name = ''.tar'', Extractor = Some (\<lambda>r. es), Decompressor = None\<rparr>"

definition gz_of :: "(string \<times> failure option) list \<Rightarrow> Format" where
  "gz_of reads = \<lparr>Name = ''.gz'', Extractor = None, Decompressor = Some (\<lambda>r. Inr reads)\<rparr>"

definition bare_format :: Format where
  "bare_format = \<lparr>Name = ''.bin'', Extractor = None, Decompressor = None\<rparr>"

text \<open>An archive writer that produces \<open>n\<close> bytes and no error.\<close>

definition stream_of :: "nat \<Rightarrow> streamer" where
  "stream_of n = (\<lambda>fs base fileList. (replicate n (CHR ''z''), None))"

text \<open>
  An excerpt of the GBK decoder, enough for the inputs below: an ASCII byte decodes to
  itself and the two bytes C3 A9 decode to the character U+8305, in UTF-8 the bytes
  E8 8C 85. Every other byte is outside the excerpt and answered with an error.
\<close>

fun gbk_excerpt :: "string \<Rightarrow> failure + string" where
  "gbk_excerpt [] = Inr []"
| "gbk_excerpt (a # rest) =
     (if byte_in 0x00 0x7F a then
        (case gbk_excerpt rest of Inl e \<Rightarrow> Inl e | Inr s \<Rightarrow> Inr (a # s))
      else
        (case rest of
           b # rest' \<Rightarrow>
             if a = CHR 0xC3 \<and> b = CHR 0xA9 then
               (case gbk_excerpt rest' of
                  Inl e \<Rightarrow> Inl e
                | Inr s \<Rightarrow> Inr (CHR 0xE8 # CHR 0x8C # CHR 0x85 # s))
             else Inl (Failed ''outside the excerpt'')
         | [] \<Rightarrow> Inl (Failed ''outside the excerpt'')))"

text \<open>The options of a decompression of \<open>x.log.gz\<close> into the root directory.\<close>

definition log_gz_options :: extractStreamOptions where
  "log_gz_options =
     \<lparr>Directory = ''/'', FileName = ''x.log.gz'',
      Format = gz_of [(''abc'', None), (''de'', Some EOF)], Reader = []\<rparr>"

text \<open>The options of an extraction of a container archive with the given entries.\<close>

definition tar_options :: "string \<Rightarrow> archive_file list \<Rightarrow> extractStreamOptions" where
  "tar_options dir es =
     \<lparr>Directory = dir, FileName = ''upload.tar'', Format = tar_of es, Reader = []\<rparr>"



text \<open>An entry whose name is the letter e with an acute accent, in UTF-8 the bytes C3 A9.\<close>

definition accent_entry :: archive_file where
  "accent_entry = entry [CHR 0xC3, CHR 0xA9] ''x''"

section \<open>Properties of the crash handler\<close>

lemma seconds_exact:
  assumes "- 9223372036 \<le> n" and "n \<le> 9223372036"
  shows "seconds n = 1000000000 * n"
proof -
  have lo: "- (2 ^ 63) \<le> 1000000000 * n" using assms by simp
  have hi: "1000000000 * n < 2 ^ 63" using assms by simp
  have "sint (word_of_int (1000000000 * n) :: 64 word) = signed_take_bit 63 (1000000000 * n)"
    by (simp only: sint_sbintrunc') simp
  also have "\<dots> = 1000000000 * n"
    using lo hi by (rule signed_take_bit_int_eq_self)
  finally show ?thesis by (simp only: seconds_def)
qed

lemma seconds_wraps: "seconds 9223372037 = - 9223372036709551616"
  by (simp add: seconds_def)

lemma seconds_zero: "seconds 0 = 0"
  by (simp add: seconds_def)

text \<open>The two ways a call that reaches the cooldown test ends.\<close>

lemma handleServerCrash_refuses:
  assumes "env_state w = ProcessOfflineState" and "CrashDetectionEnabled w"
    and "exit_state w = Inr (code, oom)"
    and "code \<noteq> 0 \<or> oom \<or> DetectCleanExitAsCrash w"
    and "Timeout w \<noteq> 0" and "c0 \<noteq> 0" and "now_check w - c0 < seconds (Timeout w)"
  shows "handleServerCrash w c0 =
           \<lparr>returned = Some crashTooFrequent,
            console = [ConsoleCrashDetected, ConsoleExitCode code, ConsoleOomKilled oom,
                       ConsoleTooFrequent (Timeout w)],
            debug_log = [], power_actions = [], lastCrash = c0\<rparr>"
proof -
  have "After (Add c0 (seconds (Timeout w))) (now_check w)"
    using assms(7) by (simp add: After_def Add_def)
  with assms show ?thesis
    by (auto simp: handleServerCrash_def IsZero_def Let_def)
qed

lemma handleServerCrash_restarts:
  assumes "env_state w = ProcessOfflineState" and "CrashDetectionEnabled w"
    and "exit_state w = Inr (code, oom)"
    and "code \<noteq> 0 \<or> oom \<or> DetectCleanExitAsCrash w"
    and "\<not> (Timeout w \<noteq> 0 \<and> c0 \<noteq> 0 \<and> now_check w - c0 < seconds (Timeout w))"
  shows "handleServerCrash w c0 =
           \<lparr>returned = (case start_result w of None \<Rightarrow> None | Some e \<Rightarrow> Some (StartFailed e)),
            console = [ConsoleCrashDetected, ConsoleExitCode code, ConsoleOomKilled oom],
            debug_log = [], power_actions = [PowerActionStart], lastCrash = now_set w\<rparr>"
proof -
  have "\<not> (Timeout w \<noteq> 0 \<and> \<not> IsZero c0 \<and> After (Add c0 (seconds (Timeout w))) (now_check w))"
    using assms(5) by (auto simp: After_def Add_def IsZero_def)
  with assms(1-4) show ?thesis
    by (auto simp: handleServerCrash_def Let_def)
qed

text \<open>A call starts the server only after it has passed the cooldown test.\<close>

lemma start_passed_cooldown:
  assumes "PowerActionStart \<in> set (power_actions (handleServerCrash w c0))"
  shows "lastCrash (handleServerCrash w c0) = now_set w
         \<and> (Timeout w \<noteq> 0 \<and> c0 \<noteq> 0 \<longrightarrow> c0 + seconds (Timeout w) \<le> now_check w)"
  using assms
  by (auto simp: handleServerCrash_def Let_def IsZero_def After_def Add_def
           split: if_splits sum.splits prod.splits)

lemma no_start_keeps_lastCrash:
  assumes "PowerActionStart \<notin> set (power_actions (handleServerCrash w c0))"
  shows "lastCrash (handleServerCrash w c0) = c0"
  using assms
  by (auto simp: handleServerCrash_def Let_def split: if_splits sum.splits prod.splits)

lemma restarts_ge_clock:
  "clock_from b ws \<Longrightarrow> t \<in> set (crash_restarts ws c0) \<Longrightarrow> b \<le> t"
proof (induction ws arbitrary: b c0)
  case Nil
  then show ?case by simp
next
  case (Cons w ws)
  from Cons.prems(1) have b: "b \<le> now_set w" and rest: "clock_from (now_set w) ws"
    by auto
  from Cons.prems(2) consider
      (here) "t = lastCrash (handleServerCrash w c0)"
        and "PowerActionStart \<in> set (power_actions (handleServerCrash w c0))"
    | (later) "t \<in> set (crash_restarts ws (lastCrash (handleServerCrash w c0)))"
    by (auto simp: Let_def split: if_splits)
  then show ?case
  proof cases
    case here
    then have "t = now_set w"
      using start_passed_cooldown by simp
    with b show ?thesis by simp
  next
    case later
    with Cons.IH [OF rest] have "now_set w \<le> t" by blast
    with b show ?thesis by simp
  qed
qed

text \<open>
  After a crash recorded at \<open>c0\<close>, every later start comes no sooner than the cooldown
  allows.
\<close>

lemma restarts_after_recorded:
  assumes "\<forall>w \<in> set ws. Timeout w = T" and "clock_from b ws" and "c0 \<le> b" and "c0 \<noteq> 0"
    and "t \<in> set (crash_restarts ws c0)"
  shows "c0 + seconds T \<le> t"
  using assms
proof (induction ws arbitrary: b)
  case Nil
  then show ?case by simp
next
  case (Cons w ws)
  let ?r = "handleServerCrash w c0"
  from Cons.prems(2) have b: "b \<le> now_check w" "now_check w \<le> now_set w"
    and rest: "clock_from (now_set w) ws"
    by auto
  have T: "Timeout w = T" using Cons.prems(1) by simp
  show ?case
  proof (cases "PowerActionStart \<in> set (power_actions ?r)")
    case True
    from start_passed_cooldown [OF True] T Cons.prems(4)
    have rec: "lastCrash ?r = now_set w" and gap: "T \<noteq> 0 \<longrightarrow> c0 + seconds T \<le> now_check w"
      by auto
    have first: "c0 + seconds T \<le> now_set w"
    proof (cases "T = 0")
      case True
      then show ?thesis using b Cons.prems(3) by (simp add: seconds_zero)
    next
      case False
      with gap b show ?thesis by simp
    qed
    from Cons.prems(5) True rec
    have "t = now_set w \<or> t \<in> set (crash_restarts ws (now_set w))"
      by (auto simp: Let_def)
    then show ?thesis
    proof
      assume "t = now_set w"
      with first show ?thesis by simp
    next
      assume "t \<in> set (crash_restarts ws (now_set w))"
      from restarts_ge_clock [OF rest this] first show ?thesis by simp
    qed
  next
    case False
    from no_start_keeps_lastCrash [OF False] have keep: "lastCrash ?r = c0" .
    from Cons.prems(5) False keep have "t \<in> set (crash_restarts ws c0)"
      by (auto simp: Let_def)
    moreover have "c0 \<le> now_set w" using Cons.prems(3) b by simp
    moreover have "\<forall>w \<in> set ws. Timeout w = T" using Cons.prems(1) by simp
    ultimately show ?thesis
      using Cons.IH [OF _ rest _ Cons.prems(4)] by blast
  qed
qed

lemma restarts_spaced:
  assumes "\<forall>w \<in> set ws. Timeout w = T" and "0 < b" and "clock_from b ws"
  shows "sorted_wrt (\<lambda>t u. seconds T \<le> u - t) (crash_restarts ws c0)"
  using assms
proof (induction ws arbitrary: b c0)
  case Nil
  then show ?case by simp
next
  case (Cons w ws)
  let ?r = "handleServerCrash w c0"
  from Cons.prems(3) have b: "b \<le> now_check w" "now_check w \<le> now_set w"
    and rest: "clock_from (now_set w) ws"
    by auto
  have pos: "0 < now_set w" using b Cons.prems(2) by simp
  have Ts: "\<forall>w \<in> set ws. Timeout w = T" using Cons.prems(1) by simp
  have tail: "sorted_wrt (\<lambda>t u. seconds T \<le> u - t) (crash_restarts ws c)" for c
    using Cons.IH [OF Ts pos rest] .
  show ?case
  proof (cases "PowerActionStart \<in> set (power_actions ?r)")
    case True
    from start_passed_cooldown [OF True] have rec: "lastCrash ?r = now_set w" by simp
    have "seconds T \<le> u - now_set w" if "u \<in> set (crash_restarts ws (now_set w))" for u
    proof -
      have "now_set w \<noteq> 0" using pos by simp
      from restarts_after_recorded [OF Ts rest order_refl this that]
      show ?thesis by simp
    qed
    with True rec tail show ?thesis by (simp add: Let_def)
  next
    case False
    with tail show ?thesis by (simp add: Let_def)
  qed
qed

text \<open>
  C2, as the code has it. With a cooldown timeout other than 0, a call of the crash
  handler that reaches the
  cooldown test (the server is offline, detection is enabled, the exit state reads as a
  crash) refuses with the crash-too-frequent error, starts nothing and keeps the recorded
  time when the recorded last crash is not the zero time and lies less than the timeout
  in the past; otherwise it records the current time as last crash and issues exactly one
  start. Hence, along any history of calls with the same timeout and a clock that does
  not run backwards (and never shows the zero time), two starts issued by the crash
  handler are at least the timeout apart. The timeout in nanoseconds is \<open>seconds T\<close>, the 64-bit product the code computes;
  it is \<open>T\<close> seconds exactly for every \<open>T\<close> up to 9223372036 (\<open>seconds_exact\<close>).
\<close>

theorem handleServerCrash_cooldown:
  "(env_state w = ProcessOfflineState \<and> CrashDetectionEnabled w
      \<and> exit_state w = Inr (code, oom) \<and> (code \<noteq> 0 \<or> oom \<or> DetectCleanExitAsCrash w)
      \<and> Timeout w \<noteq> 0 \<longrightarrow>
      (if c0 \<noteq> 0 \<and> now_check w - c0 < seconds (Timeout w)
       then returned (handleServerCrash w c0) = Some crashTooFrequent
            \<and> power_actions (handleServerCrash w c0) = []
            \<and> lastCrash (handleServerCrash w c0) = c0
       else lastCrash (handleServerCrash w c0) = now_set w
            \<and> power_actions (handleServerCrash w c0) = [PowerActionStart]))
   \<and> ((\<forall>w \<in> set ws. Timeout w = T) \<and> 0 < b \<and> clock_from b ws \<longrightarrow>
        (\<forall>i j. i < j \<and> j < length (crash_restarts ws c) \<longrightarrow>
           seconds T \<le> crash_restarts ws c ! j - crash_restarts ws c ! i))"
proof (intro conjI impI)
  assume a: "env_state w = ProcessOfflineState \<and> CrashDetectionEnabled w
      \<and> exit_state w = Inr (code, oom) \<and> (code \<noteq> 0 \<or> oom \<or> DetectCleanExitAsCrash w)
      \<and> Timeout w \<noteq> 0"
  show "if c0 \<noteq> 0 \<and> now_check w - c0 < seconds (Timeout w)
       then returned (handleServerCrash w c0) = Some crashTooFrequent
            \<and> power_actions (handleServerCrash w c0) = []
            \<and> lastCrash (handleServerCrash w c0) = c0
       else lastCrash (handleServerCrash w c0) = now_set w
            \<and> power_actions (handleServerCrash w c0) = [PowerActionStart]"
  proof (cases "c0 \<noteq> 0 \<and> now_check w - c0 < seconds (Timeout w)")
    case True
    with a handleServerCrash_refuses [of w code oom c0] show ?thesis by simp
  next
    case False
    with a handleServerCrash_restarts [of w code oom c0] show ?thesis by simp
  qed
next
  assume "(\<forall>w \<in> set ws. Timeout w = T) \<and> 0 < b \<and> clock_from b ws"
  then have "sorted_wrt (\<lambda>t u. seconds T \<le> u - t) (crash_restarts ws c)"
    using restarts_spaced by blast
  then show "\<forall>i j. i < j \<and> j < length (crash_restarts ws c) \<longrightarrow>
           seconds T \<le> crash_restarts ws c ! j - crash_restarts ws c ! i"
    by (simp add: sorted_wrt_iff_nth_less)
qed

lemma crash_history_example:
  "crash_restarts [crash_at 137 60 1000, crash_at 137 60 1005, crash_at 137 60 1070] 0
     = [1000000000001, 1070000000001]"
  by (simp add: crash_at_def handleServerCrash_def seconds_def IsZero_def After_def Add_def
        Let_def)

theorem handleServerCrash_cooldown_witness:
  "returned (handleServerCrash (crash_at 137 60 1005) 1000000000001) = Some crashTooFrequent
   \<and> power_actions (handleServerCrash (crash_at 137 60 1005) 1000000000001) = []
   \<and> lastCrash (handleServerCrash (crash_at 137 60 1005) 1000000000001) = 1000000000001
   \<and> lastCrash (handleServerCrash (crash_at 137 60 1070) 1000000000001) = 1070000000001
   \<and> power_actions (handleServerCrash (crash_at 137 60 1070) 1000000000001) = [PowerActionStart]
   \<and> crash_restarts [crash_at 137 60 1000, crash_at 137 60 1005, crash_at 137 60 1070] 0
       = [1000000000001, 1070000000001]
   \<and> seconds 60 \<le> 1070000000001 - 1000000000001"
proof -
  let ?ws = "[crash_at 137 60 1000, crash_at 137 60 1005, crash_at 137 60 1070]"
  have s60: "seconds 60 = 60000000000" by (simp add: seconds_def)
  have clock: "(\<forall>w \<in> set ?ws. Timeout w = 60) \<and> (0::int) < 1 \<and> clock_from 1 ?ws"
    by (simp add: crash_at_def)
  have refused:
    "returned (handleServerCrash (crash_at 137 60 1005) 1000000000001) = Some crashTooFrequent
     \<and> power_actions (handleServerCrash (crash_at 137 60 1005) 1000000000001) = []
     \<and> lastCrash (handleServerCrash (crash_at 137 60 1005) 1000000000001) = 1000000000001"
    using handleServerCrash_cooldown [of "crash_at 137 60 1005" 137 False 1000000000001 "[]" 60 1 0]
    by (simp add: crash_at_def s60)
  have started:
    "lastCrash (handleServerCrash (crash_at 137 60 1070) 1000000000001) = 1070000000001
     \<and> power_actions (handleServerCrash (crash_at 137 60 1070) 1000000000001)
         = [PowerActionStart]"
    using handleServerCrash_cooldown [of "crash_at 137 60 1070" 137 False 1000000000001 "[]" 60 1 0]
    by (simp add: crash_at_def s60)
  have "\<forall>i j. i < j \<and> j < length (crash_restarts ?ws 0) \<longrightarrow>
           seconds 60 \<le> crash_restarts ?ws 0 ! j - crash_restarts ?ws 0 ! i"
    using handleServerCrash_cooldown [of "crash_at 0 0 0" 0 False 0 ?ws 60 1 0] clock
    by blast
  then have "0 < (1::nat) \<and> 1 < length (crash_restarts ?ws 0) \<longrightarrow>
           seconds 60 \<le> crash_restarts ?ws 0 ! 1 - crash_restarts ?ws 0 ! 0"
    by blast
  then have apart: "seconds 60 \<le> 1070000000001 - 1000000000001"
    by (simp add: crash_history_example del: crash_restarts.simps)
  from refused started apart crash_history_example show ?thesis
    by (simp del: crash_restarts.simps)
qed

text \<open>
  The claim as stated fails on a call that does not reach the cooldown test: after a clean
  exit (exit code 0, no kill for lack of memory, clean exits not detected as crashes) the
  handler returns no error although the last crash lies 5 seconds back, and 1000 seconds
  after the last crash it neither records the time nor starts the server.
\<close>

theorem handleServerCrash_gate_counterexample:
  "Timeout (crash_at 0 60 1005) \<noteq> 0
   \<and> (1000000000001 :: time) \<noteq> 0
   \<and> now_check (crash_at 0 60 1005) - 1000000000001 < seconds (Timeout (crash_at 0 60 1005))
   \<and> returned (handleServerCrash (crash_at 0 60 1005) 1000000000001) = None
   \<and> \<not> now_check (crash_at 0 60 2000) - 1000000000001 < seconds (Timeout (crash_at 0 60 2000))
   \<and> lastCrash (handleServerCrash (crash_at 0 60 2000) 1000000000001) = 1000000000001
   \<and> power_actions (handleServerCrash (crash_at 0 60 2000) 1000000000001) = []"
  by (simp add: crash_at_def handleServerCrash_def seconds_def)

text \<open>
  C7. If the last exit has exit code 0, was not killed for lack of memory, and a clean
  exit is not to be detected as a crash, the crash handler returns success, publishes no
  crash announcement, leaves the recorded last crash time as it is and starts nothing.
\<close>

theorem handleServerCrash_clean_exit:
  assumes "exit_state w = Inr (0, False)" and "\<not> DetectCleanExitAsCrash w"
  shows "returned (handleServerCrash w c0) = None
         \<and> ConsoleCrashDetected \<notin> set (console (handleServerCrash w c0))
         \<and> lastCrash (handleServerCrash w c0) = c0
         \<and> power_actions (handleServerCrash w c0) = []"
  using assms by (simp add: handleServerCrash_def)

theorem handleServerCrash_clean_exit_witness:
  "exit_state (crash_at 0 60 1005) = Inr (0, False)
   \<and> \<not> DetectCleanExitAsCrash (crash_at 0 60 1005)
   \<and> returned (handleServerCrash (crash_at 0 60 1005) 1000000000001) = None
   \<and> console (handleServerCrash (crash_at 0 60 1005) 1000000000001) = []
   \<and> lastCrash (handleServerCrash (crash_at 0 60 1005) 1000000000001) = 1000000000001
   \<and> power_actions (handleServerCrash (crash_at 0 60 1005) 1000000000001) = []"
proof -
  have h: "exit_state (crash_at 0 60 1005) = Inr (0, False)"
    "\<not> DetectCleanExitAsCrash (crash_at 0 60 1005)"
    by (simp_all add: crash_at_def)
  have "console (handleServerCrash (crash_at 0 60 1005) 1000000000001) = []"
    by (simp add: crash_at_def handleServerCrash_def)
  with h handleServerCrash_clean_exit [OF h, of 1000000000001] show ?thesis
    by simp
qed

section \<open>Properties of the HTTP error translation\<close>

lemma getAsFilesystemError_cases:
  "fst (getAsFilesystemError e) \<in> {0, StatusForbidden, StatusNotFound, StatusBadRequest}"
  by (simp add: getAsFilesystemError_def)

lemma getAsFilesystemError_below_500: "fst (getAsFilesystemError e) < 500"
  by (simp add: getAsFilesystemError_def StatusForbidden_def StatusNotFound_def
        StatusBadRequest_def)

lemma AbortWithStatus_tracked:
  assumes "500 \<le> status (fst (AbortWithStatus status0 ws e))"
  shows "body_error_id (fst (AbortWithStatus status0 ws e)) = Some (uuid e)
         \<and> fst (snd (AbortWithStatus status0 ws e)) = [logger e ErrorLevel]"
proof -
  obtain st msg where g: "getAsFilesystemError e = (st, msg)"
    by (cases "getAsFilesystemError e")
  with getAsFilesystemError_below_500 [of e] have "st < 500" by simp
  with assms g show ?thesis
    by (auto simp: AbortWithStatus_def Let_def StatusNotFound_def StatusBadRequest_def
             split: if_splits)
qed

lemma AbortWithStatus_filesystem:
  assumes "\<not> is_not_exist (err e)"
    and "\<not> HasPrefix (Error (err e)) ''invalid URL escape''"
    and "fst (getAsFilesystemError e) \<noteq> 0"
  shows "status (fst (AbortWithStatus status0 ws e)) = fst (getAsFilesystemError e)"
  using assms
  by (cases "getAsFilesystemError e") (simp add: AbortWithStatus_def Let_def)


lemma getAsFilesystemError_by_rule:
  "(IsErrorCode (err e) ErrCodeDenylistFile \<longrightarrow>
            fst (getAsFilesystemError e) = 403)
       \<and> (IsErrorCode (err e) ErrCodePathResolution
            \<and> \<not> Contains (Error (err e)) ''filesystem: file access prohibited'' \<longrightarrow>
            fst (getAsFilesystemError e) = 404)
       \<and> (IsErrorCode (err e) ErrCodeIsDirectory
            \<and> \<not> Contains (Error (err e)) ''filesystem: file access prohibited''
            \<and> \<not> Contains (Error (err e)) ''resolves to a location outside the server root''
            \<longrightarrow> fst (getAsFilesystemError e) = 400)
       \<and> (IsErrorCode (err e) ErrCodeDiskSpace
            \<and> \<not> Contains (Error (err e)) ''filesystem: file access prohibited''
            \<and> \<not> Contains (Error (err e)) ''resolves to a location outside the server root''
            \<longrightarrow> fst (getAsFilesystemError e) = 400)
       \<and> (HasSuffix (Error (err e)) ''file name too long''
            \<and> \<not> IsErrorCode (err e) ErrCodeDenylistFile
            \<and> \<not> IsErrorCode (err e) ErrCodePathResolution
            \<and> \<not> Contains (Error (err e)) ''filesystem: file access prohibited''
            \<and> \<not> Contains (Error (err e)) ''resolves to a location outside the server root''
            \<longrightarrow> fst (getAsFilesystemError e) = 400)"
  by (simp add: getAsFilesystemError_def IsErrorCode_def StatusForbidden_def
        StatusNotFound_def StatusBadRequest_def)

text \<open>
  C6, as the code has it. For an error that is not a not-exist error and whose text does
  not start with \<open>invalid URL escape\<close>, the translator answers a denylist error with
  403, a path-resolution error with 404, an is-directory error and a disk-space error with
  400 and a name-too-long error with 400, each provided the error matches none of the rules
  the translator tests before (their codes and marker texts). Every response of status 500
  or above carries the request error's uuid as \<open>error_id\<close>, and the same uuid is logged at
  error level.
\<close>

theorem AbortWithStatus_kind_to_status:
  "(\<not> is_not_exist (err e) \<and> \<not> HasPrefix (Error (err e)) ''invalid URL escape'' \<longrightarrow>
      (IsErrorCode (err e) ErrCodeDenylistFile \<longrightarrow>
         status (fst (AbortWithStatus status0 ws e)) = 403)
    \<and> (IsErrorCode (err e) ErrCodePathResolution
         \<and> \<not> Contains (Error (err e)) ''filesystem: file access prohibited'' \<longrightarrow>
         status (fst (AbortWithStatus status0 ws e)) = 404)
    \<and> (IsErrorCode (err e) ErrCodeIsDirectory
         \<and> \<not> Contains (Error (err e)) ''filesystem: file access prohibited''
         \<and> \<not> Contains (Error (err e)) ''resolves to a location outside the server root'' \<longrightarrow>
         status (fst (AbortWithStatus status0 ws e)) = 400)
    \<and> (IsErrorCode (err e) ErrCodeDiskSpace
         \<and> \<not> Contains (Error (err e)) ''filesystem: file access prohibited''
         \<and> \<not> Contains (Error (err e)) ''resolves to a location outside the server root'' \<longrightarrow>
         status (fst (AbortWithStatus status0 ws e)) = 400)
    \<and> (HasSuffix (Error (err e)) ''file name too long''
         \<and> \<not> IsErrorCode (err e) ErrCodeDenylistFile
         \<and> \<not> IsErrorCode (err e) ErrCodePathResolution
         \<and> \<not> Contains (Error (err e)) ''filesystem: file access prohibited''
         \<and> \<not> Contains (Error (err e)) ''resolves to a location outside the server root'' \<longrightarrow>
         status (fst (AbortWithStatus status0 ws e)) = 400))
   \<and> (500 \<le> status (fst (AbortWithStatus status0 ws e)) \<longrightarrow>
        body_error_id (fst (AbortWithStatus status0 ws e)) = Some (uuid e)
        \<and> (\<exists>entry \<in> set (fst (snd (AbortWithStatus status0 ws e))).
              level entry = ErrorLevel \<and> field_error_id entry = uuid e))"
proof (intro conjI impI)
  assume "500 \<le> status (fst (AbortWithStatus status0 ws e))"
  from AbortWithStatus_tracked [OF this]
  show "body_error_id (fst (AbortWithStatus status0 ws e)) = Some (uuid e)"
    and "\<exists>entry \<in> set (fst (snd (AbortWithStatus status0 ws e))).
              level entry = ErrorLevel \<and> field_error_id entry = uuid e"
    by (simp_all add: logger_def)
next
  assume a: "\<not> is_not_exist (err e) \<and> \<not> HasPrefix (Error (err e)) ''invalid URL escape''"
  have st: "status (fst (AbortWithStatus status0 ws e)) = n"
    if "fst (getAsFilesystemError e) = n" and "n \<noteq> 0" for n
    using a that AbortWithStatus_filesystem [of e status0 ws] by simp
  note rules = getAsFilesystemError_by_rule [of e]
  {
    assume "IsErrorCode (err e) ErrCodeDenylistFile"
    with rules show "status (fst (AbortWithStatus status0 ws e)) = 403"
      by (intro st) simp_all
  next
    assume "IsErrorCode (err e) ErrCodePathResolution
         \<and> \<not> Contains (Error (err e)) ''filesystem: file access prohibited''"
    with rules show "status (fst (AbortWithStatus status0 ws e)) = 404"
      by (intro st) simp_all
  next
    assume "IsErrorCode (err e) ErrCodeIsDirectory
         \<and> \<not> Contains (Error (err e)) ''filesystem: file access prohibited''
         \<and> \<not> Contains (Error (err e)) ''resolves to a location outside the server root''"
    with rules show "status (fst (AbortWithStatus status0 ws e)) = 400"
      by (intro st) simp_all
  next
    assume "IsErrorCode (err e) ErrCodeDiskSpace
         \<and> \<not> Contains (Error (err e)) ''filesystem: file access prohibited''
         \<and> \<not> Contains (Error (err e)) ''resolves to a location outside the server root''"
    with rules show "status (fst (AbortWithStatus status0 ws e)) = 400"
      by (intro st) simp_all
  next
    assume "HasSuffix (Error (err e)) ''file name too long''
         \<and> \<not> IsErrorCode (err e) ErrCodeDenylistFile
         \<and> \<not> IsErrorCode (err e) ErrCodePathResolution
         \<and> \<not> Contains (Error (err e)) ''filesystem: file access prohibited''
         \<and> \<not> Contains (Error (err e)) ''resolves to a location outside the server root''"
    with rules show "status (fst (AbortWithStatus status0 ws e)) = 400"
      by (intro st) simp_all
  }
qed

lemma disk_space_error_facts:
  "\<not> is_not_exist (err disk_space_error)"
  "\<not> HasPrefix (Error (err disk_space_error)) ''invalid URL escape''"
  "IsErrorCode (err disk_space_error) ErrCodeDiskSpace"
  "\<not> Contains (Error (err disk_space_error)) ''filesystem: file access prohibited''"
  "\<not> Contains (Error (err disk_space_error)) ''resolves to a location outside the server root''"
  by (simp_all add: disk_space_error_def IsErrorCode_def)

lemma runtime_error_response:
  "status (fst (AbortWithStatus 500 200 runtime_error)) = 500"
  by (simp add: runtime_error_def AbortWithStatus_def getAsFilesystemError_def
        IsErrorCode_def HasSuffix_def Let_def)

theorem AbortWithStatus_kind_to_status_witness:
  "\<not> is_not_exist (err disk_space_error)
   \<and> \<not> HasPrefix (Error (err disk_space_error)) ''invalid URL escape''
   \<and> IsErrorCode (err disk_space_error) ErrCodeDiskSpace
   \<and> status (fst (AbortWithStatus 500 200 disk_space_error)) = 400
   \<and> 500 \<le> status (fst (AbortWithStatus 500 200 runtime_error))
   \<and> body_error_id (fst (AbortWithStatus 500 200 runtime_error)) = Some (uuid runtime_error)
   \<and> (\<exists>entry \<in> set (fst (snd (AbortWithStatus 500 200 runtime_error))).
         level entry = ErrorLevel \<and> field_error_id entry = uuid runtime_error)"
  using AbortWithStatus_kind_to_status [of disk_space_error 500 200]
    AbortWithStatus_kind_to_status [of runtime_error 500 200]
    disk_space_error_facts runtime_error_response
  by simp

lemma long_name_error_text:
  "HasSuffix (Error (err long_name_error)) ''file name too long''"
  "Contains (Error (err long_name_error)) ''filesystem: file access prohibited''"
  by code_simp+

text \<open>
  The claim as stated fails: the host's name-too-long error on a path that contains the
  text of the denylist error is answered with 403.
\<close>

theorem AbortWithStatus_name_too_long_counterexample:
  "HasSuffix (Error (err long_name_error)) ''file name too long''
   \<and> fs_code (err long_name_error) = None
   \<and> \<not> is_not_exist (err long_name_error)
   \<and> status (fst (AbortWithStatus 500 200 long_name_error)) = 403"
proof -
  have "\<not> HasPrefix (Error (err long_name_error)) ''invalid URL escape''"
    by (simp add: long_name_error_def)
  moreover have "\<not> is_not_exist (err long_name_error)"
    and "fs_code (err long_name_error) = None"
    by (simp_all add: long_name_error_def)
  ultimately show ?thesis
    using long_name_error_text
    by (simp add: AbortWithStatus_def getAsFilesystemError_def Let_def StatusForbidden_def)
qed

text \<open>
  C10, as the code has it. \<open>AbortWithStatus\<close> replaces the status the caller asks for by
  the writer's status whenever that is not 200, and the replaced status is the status of
  the response when none of the translator's rules applies to the error. For a not-exist
  error, an error whose text starts with \<open>invalid URL escape\<close> and an error the
  filesystem rules translate, the whole outcome is the same whatever the requested status
  and the writer's status are.
\<close>

theorem AbortWithStatus_committed_status:
  "(\<not> is_not_exist (err e) \<and> \<not> HasPrefix (Error (err e)) ''invalid URL escape''
      \<and> fst (getAsFilesystemError e) = 0 \<longrightarrow>
      status (fst (AbortWithStatus status0 ws e)) = (if ws \<noteq> 200 then ws else status0))
   \<and> (is_not_exist (err e) \<or> HasPrefix (Error (err e)) ''invalid URL escape''
      \<or> fst (getAsFilesystemError e) \<noteq> 0 \<longrightarrow>
      AbortWithStatus status0 ws e = AbortWithStatus status1 ws1 e)"
  by (cases "getAsFilesystemError e") (auto simp: AbortWithStatus_def Let_def)

theorem AbortWithStatus_committed_status_witness:
  "status (fst (AbortWithStatus 500 409 runtime_error)) = 409
   \<and> status (fst (AbortWithStatus 500 200 runtime_error)) = 500
   \<and> fst (getAsFilesystemError disk_space_error) \<noteq> 0
   \<and> AbortWithStatus 500 409 disk_space_error = AbortWithStatus 400 200 disk_space_error"
proof -
  have r: "\<not> is_not_exist (err runtime_error)
      \<and> \<not> HasPrefix (Error (err runtime_error)) ''invalid URL escape''
      \<and> fst (getAsFilesystemError runtime_error) = 0"
    by (simp add: runtime_error_def getAsFilesystemError_def IsErrorCode_def HasSuffix_def)
  have d: "fst (getAsFilesystemError disk_space_error) \<noteq> 0"
    by (simp add: disk_space_error_def getAsFilesystemError_def IsErrorCode_def
          StatusBadRequest_def StatusForbidden_def StatusNotFound_def)
  from r d AbortWithStatus_committed_status [of runtime_error 500 409 500 409]
    AbortWithStatus_committed_status [of runtime_error 500 200 500 200]
    AbortWithStatus_committed_status [of disk_space_error 500 409 400 200]
  show ?thesis by simp
qed

text \<open>
  The claim as stated fails: with the writer's status already set to 409, a disk-space
  error is still answered with the status of its kind, 400.
\<close>

theorem AbortWithStatus_committed_status_counterexample:
  "(409::int) \<noteq> 200
   \<and> IsErrorCode (err disk_space_error) ErrCodeDiskSpace
   \<and> status (fst (AbortWithStatus 500 409 disk_space_error)) = 400"
  by (simp add: disk_space_error_def AbortWithStatus_def getAsFilesystemError_def
        IsErrorCode_def Let_def StatusBadRequest_def)

section \<open>Properties of compression and of the formats without interface\<close>

lemma SafePath_frame:
  "root fs' = root fs \<Longrightarrow> resolve fs' = resolve fs \<Longrightarrow> SafePath fs' p = SafePath fs p"
  by (simp add: SafePath_def)

lemma OpenFile_frame:
  assumes "OpenFile fs p = Inr (f, fs1)"
  shows "root fs1 = root fs" and "resolve fs1 = resolve fs"
    and "disk_used fs1 = disk_used fs" and "disk_limit fs1 = disk_limit fs"
    and "\<exists>sp. SafePath fs p = Inr sp \<and> f = resolve fs sp"
    and "files fs1 f \<noteq> None"
  using assms
  by (auto simp: OpenFile_def Let_def split: sum.splits if_splits)

lemma os_Remove_disk_used: "disk_used (os_Remove fs p) = disk_used fs"
  by (simp add: os_Remove_def Let_def)

text \<open>
  What \<open>CompressFiles\<close> does once the archive has been streamed to disk without error. In
  the variant built on unixFS: if the bytes written do not fit the quota, the archive file
  is removed, the result is the disk-space error, and the removal takes the size of the
  removed file off \<open>disk_used\<close>, to which it was never added; if they fit, exactly their
  number is added to \<open>disk_used\<close> and the result is the file info of the archive. In the
  variant built on SafePath, where the name of the archive is no symbolic link: if the
  bytes do not fit, the archive file is removed, the result is the disk-space error and
  \<open>disk_used\<close> is what it was; if they fit, their number is added and the file info
  returned.
\<close>

lemma CompressFiles_quota_outcome:
  "(OpenFile fs (Join [dir, archive_name stamp]) = Inr (f, fs1)
      \<and> Stream fs1 dir paths = (bytes, None) \<longrightarrow>
      (case CompressFiles_unixFS Stream stamp dir paths fs of (r, fs') \<Rightarrow>
         if disk_limit fs > 0 \<and> disk_used fs + int (length bytes) > disk_limit fs
         then r = Inl (Filesystem ErrCodeDiskSpace) \<and> files fs' f = None
              \<and> disk_used fs' \<le> disk_used fs - int (length bytes)
         else disk_used fs' = disk_used fs + int (length bytes)
              \<and> r = fStat fs' f
              \<and> (\<exists>content. files fs' f = Some content
                     \<and> take (length bytes) content = bytes
                     \<and> r = Inr \<lparr>info_location = f, info_size = int (length content)\<rparr>)))
   \<and> (SafePath fs dir = Inr c
      \<and> ParallelSafePath fs (map (\<lambda>p. Join [c, p]) paths) = Inr cleaned
      \<and> Stream fs c cleaned = (bytes, None)
      \<and> g = resolve fs (Join [c, archive_name stamp])
      \<and> g = Join [resolve fs (Dir (Join [c, archive_name stamp])),
                   Base (Join [c, archive_name stamp])]
      \<and> resolve fs g = g \<longrightarrow>
      (case CompressFiles_SafePath Stream stamp dir paths fs of (r, paths', fs') \<Rightarrow>
         if disk_limit fs > 0 \<and> disk_used fs + int (length bytes) > disk_limit fs
         then r = Inl (Filesystem ErrCodeDiskSpace) \<and> files fs' g = None
              \<and> disk_used fs' = disk_used fs
         else disk_used fs' = disk_used fs + int (length bytes)
              \<and> files fs' g = Some bytes
              \<and> r = Inr \<lparr>info_location = g, info_size = int (length bytes)\<rparr>))"
proof (intro conjI impI)
  assume a: "OpenFile fs (Join [dir, archive_name stamp]) = Inr (f, fs1)
      \<and> Stream fs1 dir paths = (bytes, None)"
  let ?d = "Join [dir, archive_name stamp]"
  from a have op: "OpenFile fs ?d = Inr (f, fs1)" and st: "Stream fs1 dir paths = (bytes, None)"
    by simp_all
  note fr = OpenFile_frame [OF op]
  from fr(5) obtain sp where sp: "SafePath fs ?d = Inr sp" "f = resolve fs sp" by blast
  let ?fs2 = "fwrite fs1 f 0 bytes"
  let ?content = "bytes @ drop (length bytes) (case files fs1 f of None \<Rightarrow> [] | Some old \<Rightarrow> old)"
  have sp2: "SafePath ?fs2 ?d = Inr sp"
    using sp(1) fr(1,2) by (simp add: SafePath_def fwrite_def Let_def)
  have res2: "resolve ?fs2 = resolve fs"
    using fr(2) by (simp add: fwrite_def Let_def)
  have used2: "disk_used ?fs2 = disk_used fs" "disk_limit ?fs2 = disk_limit fs"
    using fr(3,4) by (simp_all add: fwrite_def Let_def)
  have content2: "files ?fs2 f = Some ?content"
    by (simp add: fwrite_def Let_def)
  show "case CompressFiles_unixFS Stream stamp dir paths fs of (r, fs') \<Rightarrow>
         if disk_limit fs > 0 \<and> disk_used fs + int (length bytes) > disk_limit fs
         then r = Inl (Filesystem ErrCodeDiskSpace) \<and> files fs' f = None
              \<and> disk_used fs' \<le> disk_used fs - int (length bytes)
         else disk_used fs' = disk_used fs + int (length bytes)
              \<and> r = fStat fs' f
              \<and> (\<exists>content. files fs' f = Some content
                     \<and> take (length bytes) content = bytes
                     \<and> r = Inr \<lparr>info_location = f, info_size = int (length content)\<rparr>)"
  proof (cases "disk_limit fs > 0 \<and> disk_used fs + int (length bytes) > disk_limit fs")
    case True
    then have nofit: "\<not> CanFit ?fs2 (int (length bytes))"
      using used2 by (simp add: CanFit_def HasSpaceFor_def)
    have "CompressFiles_unixFS Stream stamp dir paths fs
            = (Inl (Filesystem ErrCodeDiskSpace), Remove_unixFS ?fs2 ?d)"
      using op st nofit by (simp add: CompressFiles_unixFS_def Let_def)
    moreover have rem: "Remove_unixFS ?fs2 ?d
            = ?fs2\<lparr>files := (files ?fs2)(f := None),
                    disk_used := disk_used ?fs2 - int (length ?content)\<rparr>"
      using sp2 res2 sp(2) content2 by (simp add: Remove_unixFS_def)
    moreover have "files (Remove_unixFS ?fs2 ?d) f = None"
      unfolding rem by simp
    moreover have "disk_used (Remove_unixFS ?fs2 ?d) \<le> disk_used fs - int (length bytes)"
      unfolding rem using used2 by simp
    ultimately show ?thesis using True by simp
  next
    case False
    then have fit: "CanFit ?fs2 (int (length bytes))"
      using used2 by (auto simp: CanFit_def HasSpaceFor_def)
    let ?fs3 = "Add_unixFS ?fs2 (int (length bytes))"
    have "CompressFiles_unixFS Stream stamp dir paths fs = (fStat ?fs3 f, ?fs3)"
      using op st fit by (simp add: CompressFiles_unixFS_def Let_def)
    moreover have "disk_used ?fs3 = disk_used fs + int (length bytes)"
      using used2 by (simp add: Add_unixFS_def addDisk_def)
    moreover have "files ?fs3 f = Some ?content"
      using content2 by (simp add: Add_unixFS_def addDisk_def)
    ultimately show ?thesis using False by (simp add: fStat_def)
  qed
next
  let ?d = "Join [c, archive_name stamp]"
  assume a: "SafePath fs dir = Inr c
      \<and> ParallelSafePath fs (map (\<lambda>p. Join [c, p]) paths) = Inr cleaned
      \<and> Stream fs c cleaned = (bytes, None)
      \<and> g = resolve fs ?d
      \<and> g = Join [resolve fs (Dir ?d), Base ?d]
      \<and> resolve fs g = g"
  note rest = a [THEN conjunct2, THEN conjunct2, THEN conjunct2]
  have g: "resolve fs ?d = g" "Join [resolve fs (Dir ?d), Base ?d] = g" "resolve fs g = g"
    using rest [THEN conjunct1, symmetric]
      rest [THEN conjunct2, THEN conjunct1, symmetric]
      rest [THEN conjunct2, THEN conjunct2]
    by this+
  let ?fs1 = "fs\<lparr>files := (files fs)(g \<mapsto> bytes)\<rparr>"
  from a g have cr: "Create Stream fs c cleaned ?d = (None, ?fs1)"
    by (simp add: Create_def)
  have stat: "os_Stat ?fs1 ?d = Inr \<lparr>info_location = g, info_size = int (length bytes)\<rparr>"
    using g by (simp add: os_Stat_def)
  have rem: "os_Remove ?fs1 ?d = ?fs1\<lparr>files := (files ?fs1)(g := None)\<rparr>"
    using g by (simp add: os_Remove_def Let_def)
  show "case CompressFiles_SafePath Stream stamp dir paths fs of (r, paths', fs') \<Rightarrow>
         if disk_limit fs > 0 \<and> disk_used fs + int (length bytes) > disk_limit fs
         then r = Inl (Filesystem ErrCodeDiskSpace) \<and> files fs' g = None
              \<and> disk_used fs' = disk_used fs
         else disk_used fs' = disk_used fs + int (length bytes)
              \<and> files fs' g = Some bytes
              \<and> r = Inr \<lparr>info_location = g, info_size = int (length bytes)\<rparr>"
  proof (cases "disk_limit fs > 0 \<and> disk_used fs + int (length bytes) > disk_limit fs")
    case True
    then have "HasSpaceFor ?fs1 (int (length bytes)) = Some (Filesystem ErrCodeDiskSpace)"
      by (simp add: HasSpaceFor_def)
    with a cr stat rem True show ?thesis
      by (simp add: CompressFiles_SafePath_def Let_def)
  next
    case False
    then have "HasSpaceFor ?fs1 (int (length bytes)) = None"
      by (auto simp: HasSpaceFor_def)
    with a cr stat False show ?thesis
      by (simp add: CompressFiles_SafePath_def Let_def addDisk_def)
  qed
qed

lemma archive_path_example:
  "Join [''/'', archive_name ''2026-11-01T10:20:30Z''] = ''/archive-2026-11-01T102030Z.tar.gz''"
  "Join [''/srv/data'', archive_name ''2026-11-01T10:20:30Z'']
     = ''/srv/data/archive-2026-11-01T102030Z.tar.gz''"
  by code_simp+

lemma small_fs_SafePath_example:
  "SafePath small_fs ''/archive-2026-11-01T102030Z.tar.gz''
     = Inr ''/srv/data/archive-2026-11-01T102030Z.tar.gz''"
  "SafePath small_fs ''/'' = Inr ''/srv/data''"
  "SafePath small_fs (Join [''/srv/data'', ''blob.bin'']) = Inr ''/srv/data/srv/data/blob.bin''"
  by code_simp+

lemma small_fs_fields:
  "root small_fs = ''/srv/data''" "resolve small_fs = (\<lambda>p. p)" "disk_limit small_fs = 100"
  "disk_used small_fs = 10" "denylist small_fs = (\<lambda>p. False)"
  "files small_fs = [''/srv/data/blob.bin'' \<mapsto> ''0123456789'']"
  "modes small_fs = Map.empty" "mtimes small_fs = Map.empty"
  by (simp_all add: small_fs_def)

lemma compress_blob_paths:
  "ParallelSafePath small_fs (map (\<lambda>p. Join [''/srv/data'', p]) [''blob.bin''])
     = Inr [''/srv/data/srv/data/blob.bin'']"
  by code_simp

text \<open>
  C3 at a failing input. The quota is 100 bytes of which 10 are used, and the archive
  comes to 95 bytes. In the variant built on unixFS the archive is removed and the
  disk-space error returned, but \<open>disk_used\<close> ends at -85: the removal subtracts the 95
  bytes of the archive, which were never added. In the variant built on SafePath the same
  call leaves \<open>disk_used\<close> at 10.
\<close>

theorem CompressFiles_over_quota_lowers_disk_used:
  "fst (CompressFiles_unixFS (stream_of 95) ''2026-11-01T10:20:30Z'' ''/'' [''blob.bin'']
          small_fs) = Inl (Filesystem ErrCodeDiskSpace)
   \<and> files (snd (CompressFiles_unixFS (stream_of 95) ''2026-11-01T10:20:30Z'' ''/''
          [''blob.bin''] small_fs)) ''/srv/data/archive-2026-11-01T102030Z.tar.gz'' = None
   \<and> disk_used small_fs = 10
   \<and> disk_used (snd (CompressFiles_unixFS (stream_of 95) ''2026-11-01T10:20:30Z'' ''/''
          [''blob.bin''] small_fs)) = - 85
   \<and> fst (CompressFiles_SafePath (stream_of 95) ''2026-11-01T10:20:30Z'' ''/'' [''blob.bin'']
          small_fs) = Inl (Filesystem ErrCodeDiskSpace)
   \<and> disk_used (snd (snd (CompressFiles_SafePath (stream_of 95) ''2026-11-01T10:20:30Z'' ''/''
          [''blob.bin''] small_fs))) = 10"
proof -
  let ?stamp = "''2026-11-01T10:20:30Z''"
  let ?f = "''/srv/data/archive-2026-11-01T102030Z.tar.gz''"
  let ?fs1 = "small_fs\<lparr>files := (files small_fs)(?f \<mapsto> []),
                        modes := (modes small_fs)(?f \<mapsto> 420)\<rparr>"
  let ?fs2 = "fwrite ?fs1 ?f 0 (replicate 95 (CHR ''z''))"
  have op: "OpenFile small_fs (Join [''/'', archive_name ?stamp]) = Inr (?f, ?fs1)"
    by (simp add: OpenFile_def archive_path_example small_fs_SafePath_example small_fs_fields
          Let_def)
  have nofit: "\<not> CanFit ?fs2 (int (length (replicate 95 (CHR ''z''))))"
    by (simp add: CanFit_def HasSpaceFor_def fwrite_def Let_def small_fs_fields)
  have run: "CompressFiles_unixFS (stream_of 95) ?stamp ''/'' [''blob.bin''] small_fs
          = (Inl (Filesystem ErrCodeDiskSpace),
             Remove_unixFS ?fs2 (Join [''/'', archive_name ?stamp]))"
    using op nofit by (simp add: CompressFiles_unixFS_def Let_def stream_of_def)
  have sp2: "SafePath ?fs2 ''/archive-2026-11-01T102030Z.tar.gz'' = Inr ?f"
    using small_fs_SafePath_example(1) by (simp add: SafePath_def fwrite_def Let_def)
  have content2: "files ?fs2 ?f = Some (replicate 95 (CHR ''z''))"
    and res2: "resolve ?fs2 = (\<lambda>p. p)" and used2: "disk_used ?fs2 = 10"
    by (simp_all add: fwrite_def Let_def small_fs_fields)
  have rem: "Remove_unixFS ?fs2 (Join [''/'', archive_name ?stamp])
          = ?fs2\<lparr>files := (files ?fs2)(?f := None), disk_used := - 85\<rparr>"
    using sp2 content2 res2 used2 by (simp add: Remove_unixFS_def archive_path_example)
  have u1: "fst (CompressFiles_unixFS (stream_of 95) ?stamp ''/'' [''blob.bin''] small_fs)
              = Inl (Filesystem ErrCodeDiskSpace)"
    and u2: "files (snd (CompressFiles_unixFS (stream_of 95) ?stamp ''/'' [''blob.bin'']
              small_fs)) ?f = None"
    and u3: "disk_used (snd (CompressFiles_unixFS (stream_of 95) ?stamp ''/'' [''blob.bin'']
              small_fs)) = - 85"
    unfolding run rem by simp_all
  let ?gs1 = "small_fs\<lparr>files := (files small_fs)(?f \<mapsto> replicate 95 (CHR ''z''))\<rparr>"
  have cr: "Create (stream_of 95) small_fs ''/srv/data'' [''/srv/data/srv/data/blob.bin'']
              (Join [''/srv/data'', archive_name ?stamp]) = (None, ?gs1)"
    by (simp add: Create_def stream_of_def archive_path_example small_fs_fields)
  have stat: "os_Stat ?gs1 (Join [''/srv/data'', archive_name ?stamp])
              = Inr \<lparr>info_location = ?f, info_size = 95\<rparr>"
    by (simp add: os_Stat_def archive_path_example small_fs_fields)
  have full: "HasSpaceFor ?gs1 95 = Some (Filesystem ErrCodeDiskSpace)"
    by (simp add: HasSpaceFor_def small_fs_fields)
  have s1: "fst (CompressFiles_SafePath (stream_of 95) ?stamp ''/'' [''blob.bin''] small_fs)
              = Inl (Filesystem ErrCodeDiskSpace)"
    and s2: "disk_used (snd (snd (CompressFiles_SafePath (stream_of 95) ?stamp ''/''
              [''blob.bin''] small_fs))) = 10"
    using small_fs_SafePath_example(2) compress_blob_paths cr stat full
    by (simp_all add: CompressFiles_SafePath_def Let_def os_Remove_disk_used small_fs_fields
          del: ParallelSafePath.simps)
  from u1 u2 u3 s1 s2 show ?thesis
    by (simp add: small_fs_fields)
qed

text \<open>
  C8, as the code has it. In the variant built on SafePath, once the directory has passed
  \<open>SafePath\<close> with the
  result \<open>c\<close>, the caller's slice holds, after the call, every path joined to \<open>c\<close>, whether
  the call then succeeds or fails.
\<close>

theorem CompressFiles_overwrites_paths:
  assumes "SafePath fs dir = Inr c"
  shows "fst (snd (CompressFiles_SafePath Stream stamp dir paths fs))
           = map (\<lambda>p. Join [c, p]) paths"
  using assms
  by (simp add: CompressFiles_SafePath_def Let_def split: sum.splits prod.splits option.splits)

lemma CompressFiles_rejected_directory:
  assumes "SafePath fs dir = Inl e"
  shows "CompressFiles_SafePath Stream stamp dir paths fs = (Inl e, paths, fs)"
  using assms by (simp add: CompressFiles_SafePath_def)

lemma compress_paths_example:
  "map (\<lambda>p. Join [''/srv/data'', p]) [''blob.bin'', ''../../etc/passwd'']
     = [''/srv/data/blob.bin'', ''/etc/passwd'']"
  "ParallelSafePath small_fs [''/srv/data/blob.bin'', ''/etc/passwd'']
     = Inr [''/srv/data/srv/data/blob.bin'', ''/srv/data/etc/passwd'']"
  "Join [''/srv/data'', archive_name ''2026-11-01T10:20:30Z'']
     = ''/srv/data/archive-2026-11-01T102030Z.tar.gz''"
  by code_simp+

lemma compress_over_quota_example:
  "fst (CompressFiles_SafePath (stream_of 95) ''2026-11-01T10:20:30Z'' ''/''
          [''blob.bin'', ''../../etc/passwd''] small_fs) = Inl (Filesystem ErrCodeDiskSpace)"
  using small_fs_SafePath_example(2) compress_paths_example
  by (simp add: CompressFiles_SafePath_def Let_def Create_def stream_of_def os_Stat_def
        HasSpaceFor_def small_fs_def del: ParallelSafePath.simps)

theorem CompressFiles_overwrites_paths_witness:
  "SafePath small_fs ''/'' = Inr ''/srv/data''
   \<and> fst (CompressFiles_SafePath (stream_of 95) ''2026-11-01T10:20:30Z'' ''/''
          [''blob.bin'', ''../../etc/passwd''] small_fs) = Inl (Filesystem ErrCodeDiskSpace)
   \<and> fst (snd (CompressFiles_SafePath (stream_of 95) ''2026-11-01T10:20:30Z'' ''/''
          [''blob.bin'', ''../../etc/passwd''] small_fs))
       = [''/srv/data/blob.bin'', ''/etc/passwd'']"
proof -
  have h: "SafePath small_fs ''/'' = Inr ''/srv/data''"
    by (rule small_fs_SafePath_example)
  from CompressFiles_overwrites_paths [OF h, of "stream_of 95" "''2026-11-01T10:20:30Z''"
      "[''blob.bin'', ''../../etc/passwd'']"] h compress_paths_example(1)
    compress_over_quota_example
  show ?thesis by simp
qed

text \<open>
  The claim as stated fails on a call whose directory is rejected: the call fails with the
  path-resolution error and the slice is what it was.
\<close>

lemma outside_directory_example:
  "SafePath small_fs ''../outside'' = Inl (Filesystem ErrCodePathResolution)"
  by code_simp

theorem CompressFiles_keeps_paths_counterexample:
  "fst (CompressFiles_SafePath (stream_of 20) ''2026-11-01T10:20:30Z'' ''../outside''
          [''blob.bin''] small_fs) = Inl (Filesystem ErrCodePathResolution)
   \<and> fst (snd (CompressFiles_SafePath (stream_of 20) ''2026-11-01T10:20:30Z'' ''../outside''
          [''blob.bin''] small_fs)) = [''blob.bin'']"
  using outside_directory_example by (simp add: CompressFiles_SafePath_def)

text \<open>
  C9. When the identified format implements neither the extractor nor the decompressor
  interface, \<open>extractStream\<close> returns no error and leaves the filesystem as it was (in the
  variant built on SafePath already when the format is no extractor); so
  \<open>DecompressFile\<close>, on a file that opens and is identified as such a format, reports
  success and extracts nothing.
\<close>

theorem extractStream_neither_interface:
  "(Extractor (Format opts) = None \<and> Decompressor (Format opts) = None \<longrightarrow>
      extractStream_unixFS decodeGBK ctx opts fs = (None, fs))
   \<and> (Extractor (Format opts) = None \<longrightarrow> extractStream_SafePath ctx opts fs = (None, fs))
   \<and> (Open_unixFS fs (Join [dir, file]) = Inr bytes
       \<and> Identify (Base file) bytes = Inr format
       \<and> Extractor format = None \<and> Decompressor format = None \<longrightarrow>
       DecompressFile_unixFS Identify decodeGBK ctx dir file fs = (None, fs))
   \<and> (SafePath fs (Join [dir, file]) = Inr source
       \<and> files fs (resolve fs source) = Some bytes
       \<and> Identify (Base source) bytes = Inr format
       \<and> Extractor format = None \<longrightarrow>
       DecompressFile_SafePath Identify ctx dir file fs = (None, fs))"
  by (simp add: extractStream_unixFS_def extractStream_SafePath_def DecompressFile_unixFS_def
        DecompressFile_SafePath_def DecompressFileUnsafe_SafePath_def)

lemma blob_example:
  "Join [''/'', ''blob.bin''] = ''/blob.bin''"
  "SafePath small_fs ''/blob.bin'' = Inr ''/srv/data/blob.bin''"
  "Open_unixFS small_fs ''/blob.bin'' = Inr ''0123456789''"
  by code_simp+

theorem extractStream_neither_interface_witness:
  "Extractor bare_format = None \<and> Decompressor bare_format = None
   \<and> Open_unixFS small_fs (Join [''/'', ''blob.bin'']) = Inr ''0123456789''
   \<and> DecompressFile_unixFS (\<lambda>name bytes. Inr bare_format) Inr None ''/'' ''blob.bin'' small_fs
       = (None, small_fs)
   \<and> DecompressFile_SafePath (\<lambda>name bytes. Inr bare_format) None ''/'' ''blob.bin'' small_fs
       = (None, small_fs)
   \<and> extractStream_unixFS Inr None
        \<lparr>Directory = ''/'', FileName = ''blob.bin'', Format = bare_format, Reader = ''0123456789''\<rparr>
        small_fs = (None, small_fs)"
proof -
  have n: "Extractor bare_format = None" "Decompressor bare_format = None"
    by (simp_all add: bare_format_def)
  have f: "files small_fs (resolve small_fs ''/srv/data/blob.bin'') = Some ''0123456789''"
    by (simp add: small_fs_def)
  from extractStream_neither_interface [of
      "\<lparr>Directory = ''/'', FileName = ''blob.bin'', Format = bare_format, Reader = ''0123456789''\<rparr>"
      Inr None small_fs "''/''" "''blob.bin''" "''0123456789''" "\<lambda>name bytes. Inr bare_format"
      bare_format "''/srv/data/blob.bin''"]
    n f blob_example
  show ?thesis by simp
qed

section \<open>Properties of decompression\<close>




















lemma concat_chunked: "0 < n \<Longrightarrow> concat (chunked n r) = r"
  by (induction n r rule: chunked.induct) simp_all

lemma HasSpaceFor_mono:
  "HasSpaceFor fs b = None \<Longrightarrow> a \<le> b \<Longrightarrow> HasSpaceFor fs a = None"
  by (auto simp: HasSpaceFor_def split: if_splits)

lemma chunks_fit_total:
  "HasSpaceFor fs (int (w + length (concat cs))) = None \<Longrightarrow> chunks_fit fs w cs"
proof (induction cs arbitrary: w)
  case Nil
  then show ?case by simp
next
  case (Cons c cs)
  have "HasSpaceFor fs (int (w + length c)) = None"
    using Cons.prems by (rule HasSpaceFor_mono) simp
  moreover have "chunks_fit fs (w + length c) cs"
    using Cons.prems by (intro Cons.IH) (simp add: add.assoc)
  ultimately show ?case by simp
qed


lemma Writefile_written:
  assumes "SafePath fs q = Inr sp" and "HasSpaceFor fs (int (length r)) = None"
  shows "Writefile fs q r =
           (None, fs\<lparr>files := (files fs)(resolve fs sp \<mapsto> r),
                     disk_used := disk_used fs + int (length r)\<rparr>)"
proof -
  have "chunks_fit fs 0 (chunked 4096 r)"
    using assms(2) by (intro chunks_fit_total) (simp add: concat_chunked)
  with assms(1) show ?thesis by (simp add: Writefile_def)
qed

text \<open>The walk of an archive, entry by entry.\<close>

lemma Extract_append:
  "Extract h ctx i (xs @ ys) fs =
     (case Extract h ctx i xs fs of
        (Some e, fs') \<Rightarrow> (Some e, fs')
      | (None, fs') \<Rightarrow> Extract h ctx (i + length xs) ys fs')"
  by (induction xs arbitrary: i fs) (auto split: prod.splits option.splits)

lemma Extract_at:
  assumes "i < length es" and "Extract h ctx 0 (take i es) fs = (None, fsi)"
  shows "Extract h ctx 0 es fs =
           (if ctx_done ctx i then (Some ContextCanceled, fsi)
            else (case h (es ! i) fsi of
                    (Some e, fs') \<Rightarrow> (Some e, fs')
                  | (None, fs') \<Rightarrow> Extract h ctx (Suc i) (drop (Suc i) es) fs'))"
proof -
  have es: "es = take i es @ (es ! i) # drop (Suc i) es"
    using assms(1) by (simp add: id_take_nth_drop)
  have len: "length (take i es) = i" using assms(1) by simp
  have "Extract h ctx 0 es fs = Extract h ctx 0 (take i es @ (es ! i) # drop (Suc i) es) fs"
    using es by simp
  also have "\<dots> = Extract h ctx i ((es ! i) # drop (Suc i) es) fsi"
    using assms(2) len by (simp only: Extract_append) simp
  finally show ?thesis by simp
qed

text \<open>The walk stops with the context's error at the first entry it finds the context done.\<close>

lemma Extract_stops_when_done:
  assumes "i < length es" and "Extract h ctx 0 (take i es) fs = (None, fsi)"
    and "ctx_done ctx i"
  shows "Extract h ctx 0 es fs = (Some ContextCanceled, fsi)"
  using Extract_at [OF assms(1,2)] assms(3) by simp



lemma SafePath_updates [simp]:
  "SafePath (fs\<lparr>files := a\<rparr>) = SafePath fs"
  "SafePath (fs\<lparr>disk_used := b\<rparr>) = SafePath fs"
  "SafePath (fs\<lparr>modes := c\<rparr>) = SafePath fs"
  "SafePath (fs\<lparr>mtimes := d\<rparr>) = SafePath fs"
  by (simp_all add: SafePath_def fun_eq_iff)

lemma entry_SafePath_written:
  assumes "\<not> IsDir f" and "\<not> denylist fs p" and "Open f = Inr r"
    and "p = Join [Directory opts, NameInArchive f]"
    and "SafePath fs p = Inr sp" and "HasSpaceFor fs (int (length r)) = None"
  shows "extractStream_entry_SafePath opts f fs =
           (None, fs\<lparr>files := (files fs)(resolve fs sp \<mapsto> r),
                     disk_used := disk_used fs + int (length r),
                     modes := (modes fs)(resolve fs sp \<mapsto> Mode f),
                     mtimes := (mtimes fs)(resolve fs sp \<mapsto> ModTime f)\<rparr>)"
  using assms(1-5) Writefile_written [OF assms(5,6)]
  by (simp add: extractStream_entry_SafePath_def IsIgnored_def Let_def Chmod_def Chtimes_def)

lemma entry_unixFS_written:
  assumes "\<not> IsDir f" and "\<not> denylist fs p" and "Open f = Inr r"
    and "p = Join [Directory opts, NameInArchive f]" and "decodeGBK p = Inr q"
    and "SafePath fs q = Inr sp" and "HasSpaceFor fs (int (length r)) = None"
  shows "extractStream_entry_unixFS decodeGBK opts f fs =
           (None, fs\<lparr>files := (files fs)(resolve fs sp \<mapsto> r),
                     disk_used := disk_used fs + int (length r),
                     modes := (modes fs)(resolve fs sp \<mapsto> Mode f),
                     mtimes := (mtimes fs)(resolve fs sp \<mapsto> ModTime f)\<rparr>)"
  using assms(1-6) Writefile_written [OF assms(6,7)]
  by (simp add: extractStream_entry_unixFS_def IsIgnored_def Let_def Write_def Chmod_def
        Chtimes_def)




lemma tar_options_fields:
  "Directory (tar_options dir es) = dir" "FileName (tar_options dir es) = ''upload.tar''"
  "Extractor (Format (tar_options dir es)) = Some (\<lambda>r. es)"
  "Reader (tar_options dir es) = []"
  by (simp_all add: tar_options_def tar_of_def)










text \<open>
  The handler of the variant built on unixFS, on a regular entry that is not on the
  denylist (tested on the path as joined, before any decoding) and can be opened: the
  joined path is given to the GBK decoder whether or not it is valid UTF-8. An error of
  the decoder ends the entry with that error; otherwise the decoded path is the one the
  write checks against the root and the one that is written.
\<close>

lemma entry_unixFS_decodes_every_path:
  "\<not> IsDir f \<and> \<not> denylist fs p \<and> Open f = Inr r
     \<and> p = Join [Directory opts, NameInArchive f] \<longrightarrow>
     (\<forall>e. decodeGBK p = Inl e \<longrightarrow>
        extractStream_entry_unixFS decodeGBK opts f fs = (Some e, fs))
   \<and> (\<forall>q e. decodeGBK p = Inr q \<and> SafePath fs q = Inl e \<longrightarrow>
        extractStream_entry_unixFS decodeGBK opts f fs = (Some e, fs))
   \<and> (\<forall>q sp. decodeGBK p = Inr q \<and> SafePath fs q = Inr sp
          \<and> HasSpaceFor fs (int (length r)) = None \<longrightarrow>
        (case extractStream_entry_unixFS decodeGBK opts f fs of
           (e, fs') \<Rightarrow>
             e = None \<and> files fs' (resolve fs sp) = Some r
             \<and> modes fs' (resolve fs sp) = Some (Mode f)
             \<and> mtimes fs' (resolve fs sp) = Some (ModTime f)
             \<and> (\<forall>t. t \<noteq> resolve fs sp \<longrightarrow> files fs' t = files fs t)))"
proof (intro impI conjI allI)
  fix e
  assume "\<not> IsDir f \<and> \<not> denylist fs p \<and> Open f = Inr r
     \<and> p = Join [Directory opts, NameInArchive f]" and "decodeGBK p = Inl e"
  then show "extractStream_entry_unixFS decodeGBK opts f fs = (Some e, fs)"
    by (auto simp: extractStream_entry_unixFS_def IsIgnored_def Let_def)
next
  fix q e
  assume "\<not> IsDir f \<and> \<not> denylist fs p \<and> Open f = Inr r
     \<and> p = Join [Directory opts, NameInArchive f]"
    and "decodeGBK p = Inr q \<and> SafePath fs q = Inl e"
  then show "extractStream_entry_unixFS decodeGBK opts f fs = (Some e, fs)"
    by (auto simp: extractStream_entry_unixFS_def IsIgnored_def Let_def Write_def
          Writefile_def wrapError_def)
next
  fix q sp
  assume a: "\<not> IsDir f \<and> \<not> denylist fs p \<and> Open f = Inr r
     \<and> p = Join [Directory opts, NameInArchive f]"
    and b: "decodeGBK p = Inr q \<and> SafePath fs q = Inr sp
          \<and> HasSpaceFor fs (int (length r)) = None"
  from a b have "extractStream_entry_unixFS decodeGBK opts f fs =
           (None, fs\<lparr>files := (files fs)(resolve fs sp \<mapsto> r),
                     disk_used := disk_used fs + int (length r),
                     modes := (modes fs)(resolve fs sp \<mapsto> Mode f),
                     mtimes := (mtimes fs)(resolve fs sp \<mapsto> ModTime f)\<rparr>)"
    by (intro entry_unixFS_written [where p = p and q = q]) blast+
  then show "case extractStream_entry_unixFS decodeGBK opts f fs of
           (e, fs') \<Rightarrow>
             e = None \<and> files fs' (resolve fs sp) = Some r
             \<and> modes fs' (resolve fs sp) = Some (Mode f)
             \<and> mtimes fs' (resolve fs sp) = Some (ModTime f)
             \<and> (\<forall>t. t \<noteq> resolve fs sp \<longrightarrow> files fs' t = files fs t)"
    by simp
qed

lemma accent_paths:
  "ValidString [CHR 0xC3, CHR 0xA9]"
  "Join [''/'', [CHR 0xC3, CHR 0xA9]] = [CHR ''/'', CHR 0xC3, CHR 0xA9]"
  "gbk_excerpt [CHR ''/'', CHR 0xC3, CHR 0xA9] = Inr [CHR ''/'', CHR 0xE8, CHR 0x8C, CHR 0x85]"
  "SafePath small_fs [CHR ''/'', CHR 0xE8, CHR 0x8C, CHR 0x85]
     = Inr (''/srv/data/'' @ [CHR 0xE8, CHR 0x8C, CHR 0x85])"
  "SafePath small_fs [CHR ''/'', CHR 0xC3, CHR 0xA9] = Inr (''/srv/data/'' @ [CHR 0xC3, CHR 0xA9])"
  by code_simp+

lemma accent_entry_fields:
  "\<not> IsDir accent_entry" "Open accent_entry = Inr ''x''"
  "NameInArchive accent_entry = [CHR 0xC3, CHR 0xA9]"
  "Mode accent_entry = 420" "ModTime accent_entry = 1700000000"
  by (simp_all add: accent_entry_def entry_def)

lemma accent_entry_written:
  "extractStream_entry_unixFS gbk_excerpt (tar_options ''/'' es) accent_entry small_fs =
     (None, small_fs\<lparr>files := (files small_fs)
            (resolve small_fs (''/srv/data/'' @ [CHR 0xE8, CHR 0x8C, CHR 0x85]) \<mapsto> ''x''),
          disk_used := disk_used small_fs + int (length ''x''),
          modes := (modes small_fs)
            (resolve small_fs (''/srv/data/'' @ [CHR 0xE8, CHR 0x8C, CHR 0x85])
               \<mapsto> Mode accent_entry),
          mtimes := (mtimes small_fs)
            (resolve small_fs (''/srv/data/'' @ [CHR 0xE8, CHR 0x8C, CHR 0x85])
               \<mapsto> ModTime accent_entry)\<rparr>)"
proof (rule entry_unixFS_written)
  show "\<not> IsDir accent_entry" by (rule accent_entry_fields)
  show "\<not> denylist small_fs [CHR ''/'', CHR 0xC3, CHR 0xA9]" by (simp add: small_fs_fields)
  show "Open accent_entry = Inr ''x''" by (rule accent_entry_fields)
  show "[CHR ''/'', CHR 0xC3, CHR 0xA9]
          = Join [Directory (tar_options ''/'' es), NameInArchive accent_entry]"
    by (simp add: tar_options_fields accent_entry_fields accent_paths(2))
  show "gbk_excerpt [CHR ''/'', CHR 0xC3, CHR 0xA9]
          = Inr [CHR ''/'', CHR 0xE8, CHR 0x8C, CHR 0x85]"
    by (rule accent_paths)
  show "SafePath small_fs [CHR ''/'', CHR 0xE8, CHR 0x8C, CHR 0x85]
          = Inr (''/srv/data/'' @ [CHR 0xE8, CHR 0x8C, CHR 0x85])"
    by (rule accent_paths)
  show "HasSpaceFor small_fs (int (length ''x'')) = None"
    by (simp add: HasSpaceFor_def small_fs_fields)
qed

lemma accent_entry_SafePath_written:
  "extractStream_entry_SafePath (tar_options ''/'' es) accent_entry small_fs =
     (None, small_fs\<lparr>files := (files small_fs)
            (resolve small_fs (''/srv/data/'' @ [CHR 0xC3, CHR 0xA9]) \<mapsto> ''x''),
          disk_used := disk_used small_fs + int (length ''x''),
          modes := (modes small_fs)
            (resolve small_fs (''/srv/data/'' @ [CHR 0xC3, CHR 0xA9]) \<mapsto> Mode accent_entry),
          mtimes := (mtimes small_fs)
            (resolve small_fs (''/srv/data/'' @ [CHR 0xC3, CHR 0xA9])
               \<mapsto> ModTime accent_entry)\<rparr>)"
proof (rule entry_SafePath_written)
  show "\<not> IsDir accent_entry" by (rule accent_entry_fields)
  show "\<not> denylist small_fs [CHR ''/'', CHR 0xC3, CHR 0xA9]" by (simp add: small_fs_fields)
  show "Open accent_entry = Inr ''x''" by (rule accent_entry_fields)
  show "[CHR ''/'', CHR 0xC3, CHR 0xA9]
          = Join [Directory (tar_options ''/'' es), NameInArchive accent_entry]"
    by (simp add: tar_options_fields accent_entry_fields accent_paths(2))
  show "SafePath small_fs [CHR ''/'', CHR 0xC3, CHR 0xA9]
          = Inr (''/srv/data/'' @ [CHR 0xC3, CHR 0xA9])"
    by (rule accent_paths)
  show "HasSpaceFor small_fs (int (length ''x'')) = None"
    by (simp add: HasSpaceFor_def small_fs_fields)
qed

text \<open>
  C4 at a failing input. A container archive with one regular entry is extracted into the
  root of the server; the name of the entry is the two bytes C3 A9, which are valid UTF-8.
  The variant built on unixFS returns no error, stores nothing under the name the archive
  declares, and stores the entry under the three bytes E8 8C 85, which is what the GBK
  decoder makes of the name. The variant built on SafePath stores the same entry under the
  name the archive declares.
\<close>

theorem extractStream_garbles_valid_utf8:
  "ValidString (NameInArchive accent_entry)
   \<and> fst (extractStream_unixFS gbk_excerpt None (tar_options ''/'' [accent_entry]) small_fs)
       = None
   \<and> files (snd (extractStream_unixFS gbk_excerpt None (tar_options ''/'' [accent_entry])
        small_fs)) (''/srv/data/'' @ NameInArchive accent_entry) = None
   \<and> files (snd (extractStream_unixFS gbk_excerpt None (tar_options ''/'' [accent_entry])
        small_fs)) (''/srv/data/'' @ [CHR 0xE8, CHR 0x8C, CHR 0x85]) = Some ''x''
   \<and> fst (extractStream_SafePath None (tar_options ''/'' [accent_entry]) small_fs) = None
   \<and> files (snd (extractStream_SafePath None (tar_options ''/'' [accent_entry]) small_fs))
        (''/srv/data/'' @ NameInArchive accent_entry) = Some ''x''"
proof -
  have v: "ValidString (NameInArchive accent_entry)"
    using accent_paths(1) by (simp only: accent_entry_fields)
  have run: "extractStream_unixFS gbk_excerpt None (tar_options ''/'' [accent_entry]) small_fs
          = extractStream_entry_unixFS gbk_excerpt (tar_options ''/'' [accent_entry])
              accent_entry small_fs"
    by (simp add: extractStream_unixFS_def tar_options_fields ctx_done_def
          split: prod.splits option.splits)
  have run': "extractStream_SafePath None (tar_options ''/'' [accent_entry]) small_fs
          = extractStream_entry_SafePath (tar_options ''/'' [accent_entry])
              accent_entry small_fs"
    by (simp add: extractStream_SafePath_def tar_options_fields ctx_done_def
          split: prod.splits option.splits)
  have u: "fst (extractStream_unixFS gbk_excerpt None (tar_options ''/'' [accent_entry])
              small_fs) = None
      \<and> files (snd (extractStream_unixFS gbk_excerpt None (tar_options ''/'' [accent_entry])
          small_fs)) (''/srv/data/'' @ NameInArchive accent_entry) = None
      \<and> files (snd (extractStream_unixFS gbk_excerpt None (tar_options ''/'' [accent_entry])
          small_fs)) (''/srv/data/'' @ [CHR 0xE8, CHR 0x8C, CHR 0x85]) = Some ''x''"
    unfolding run accent_entry_written
    by (simp add: small_fs_fields accent_entry_fields)
  have s: "fst (extractStream_SafePath None (tar_options ''/'' [accent_entry]) small_fs) = None
      \<and> files (snd (extractStream_SafePath None (tar_options ''/'' [accent_entry]) small_fs))
          (''/srv/data/'' @ NameInArchive accent_entry) = Some ''x''"
    unfolding run' accent_entry_SafePath_written
    by (simp add: small_fs_fields accent_entry_fields)
  from v u s show ?thesis by blast
qed

lemma log_gz_paths:
  "Join [''/'', TrimSuffix ''x.log.gz'' ''.gz''] = ''/x.log''"
  "SafePath small_fs ''/x.log'' = Inr ''/srv/data/x.log''"
  by code_simp+

text \<open>
  C5 at a failing input. The context is done before the call, the archive is the
  single-file compression \<open>x.log.gz\<close>: the copy loop never consults the context, the whole
  file is written and counted, and the call returns no error.
\<close>

theorem extractStream_single_file_ignores_context:
  "ctx_done (Some 0) 0
   \<and> fst (extractStream_unixFS gbk_excerpt (Some 0) log_gz_options small_fs) = None
   \<and> files (snd (extractStream_unixFS gbk_excerpt (Some 0) log_gz_options small_fs))
        ''/srv/data/x.log'' = Some ''abcde''
   \<and> disk_used (snd (extractStream_unixFS gbk_excerpt (Some 0) log_gz_options small_fs)) = 15
   \<and> disk_used small_fs = 10"
  using log_gz_paths
  by (simp add: extractStream_unixFS_def log_gz_options_def gz_of_def IsIgnored_def
        OpenFile_def Let_def small_fs_fields ctx_done_def HasSpaceFor_def addDisk_def
        fwrite_def)

lemma extractStream_single_file_any_context:
  "Extractor (Format opts) = None \<Longrightarrow>
     extractStream_unixFS decodeGBK ctx opts fs = extractStream_unixFS decodeGBK ctx' opts fs"
  by (simp add: extractStream_unixFS_def)

end
